theory Spec2Isabelle
  imports Complex_Main "HOL-Library.AList"
begin

section \<open>Python values shared by the modules\<close>

text \<open>
  Exceptions raised inside the wrappers. \<open>ValueError\<close> is the one raised by
  \<open>FAISSIndex.search\<close> and \<open>FAISSIndex.batch_search\<close> on an index that was never built
  (its message is fixed); \<open>AttributeError\<close> is a method call on \<open>None\<close>;
  \<open>IndexError\<close> is an out-of-range subscript; \<open>LibraryError\<close> is whatever the
  third-party library (faiss, qdrant_client, motor, torch) raises, with its text.
\<close>

datatype exn = ValueError | AttributeError | IndexError | LibraryError string

text \<open>
  A Python dict is kept as the list of its items in insertion order (keys distinct).
  \<open>dict_get d k dflt\<close> is \<open>d.get(k, dflt)\<close>, \<open>dict_len\<close> is \<open>len(d)\<close>, the number
  of keys, and \<open>dict_set\<close> is \<open>d[k] = v\<close>.
\<close>

type_synonym ('k, 'v) dict = "('k \<times> 'v) list"

definition dict_get :: "('k, 'v) dict \<Rightarrow> 'k \<Rightarrow> 'v \<Rightarrow> 'v" where
  "dict_get d k dflt = (case map_of d k of Some v \<Rightarrow> v | None \<Rightarrow> dflt)"

definition dict_len :: "('k, 'v) dict \<Rightarrow> nat" where
  "dict_len d = length (remdups (map fst d))"

definition dict_set :: "('k, 'v) dict \<Rightarrow> 'k \<Rightarrow> 'v \<Rightarrow> ('k, 'v) dict" where
  "dict_set d k v = AList.update k v d"

text \<open>
  \<open>xs[:k]\<close>: a negative \<open>k\<close> drops the last \<open>-k\<close> elements.
\<close>

definition py_take :: "int \<Rightarrow> 'a list \<Rightarrow> 'a list" where
  "py_take k xs = (if 0 \<le> k then take (nat k) xs else take (length xs - nat (- k)) xs)"

text \<open>
  An \<open>HTTPException\<close> carries a status code and a detail. The details that the
  endpoints below produce: \<open>NoHistoryDetail id\<close> is the text
  \<open>Usuario <id> no encontrado o sin historial\<close>, \<open>EmbeddingErrorDetail\<close> is
  \<open>Error generando embedding del usuario\<close>, \<open>InternalErrorDetail e\<close> is
  \<open>Error interno: \<close> followed by the text of the exception \<open>e\<close>, and
  \<open>ExceptionDetail e\<close> is the text of \<open>e\<close> alone, as api.py reports it.
\<close>

datatype detail =
  NoHistoryDetail int | EmbeddingErrorDetail | InternalErrorDetail exn | ExceptionDetail exn

datatype http_exception = HTTPException nat detail

section \<open>faiss\_index.py\<close>

text \<open>
  The faiss library is not part of the repository: its index objects are values of a
  type \<open>'ix\<close> and its operations are the fields of a record that every function below
  takes as its first argument. A numpy row is a \<open>real list\<close>, a 2-D array a list of
  rows. \<open>faiss_search ix queries k\<close> is \<open>ix.search(queries, k)\<close>: it returns the pair
  \<open>(scores, indices)\<close> of 2-D arrays, one row per query, or raises. The three
  constructors may raise as well (faiss refuses parameters it cannot use).
  \<open>IndexHNSWFlat d m efc efs\<close> stands for the constructor call followed by the two
  assignments to \<open>hnsw.efConstruction\<close> and \<open>hnsw.efSearch\<close>.
\<close>

record 'ix faiss =
  IndexFlatIP :: "nat \<Rightarrow> exn + 'ix"
  IndexIVFPQ :: "'ix \<Rightarrow> nat \<Rightarrow> int \<Rightarrow> nat \<Rightarrow> nat \<Rightarrow> exn + 'ix"
  IndexHNSWFlat :: "nat \<Rightarrow> nat \<Rightarrow> nat \<Rightarrow> nat \<Rightarrow> exn + 'ix"
  faiss_train :: "'ix \<Rightarrow> real list list \<Rightarrow> exn + 'ix"
  faiss_add :: "'ix \<Rightarrow> real list list \<Rightarrow> exn + 'ix"
  faiss_search :: "'ix \<Rightarrow> real list list \<Rightarrow> int \<Rightarrow> exn + (real list list \<times> int list list)"

text \<open>The fields of a \<open>FAISSIndex\<close> object; \<open>index = None\<close> until an index is built.\<close>

record 'ix FAISSIndex =
  embedding_dim :: nat
  index_type :: string
  index :: "'ix option"
  item_mapping :: "(int, int) dict"
  reverse_item_mapping :: "(int, int) dict"

text \<open>\<open>{v: k for k, v in item_mapping.items()}\<close>: a later item overwrites an earlier one.\<close>

definition invert_dict :: "('k, 'v) dict \<Rightarrow> ('v, 'k) dict" where
  "invert_dict d = foldl (\<lambda>acc (k, v). dict_set acc v k) [] d"

text \<open>
  \<open>create_index\<close> mutates the object step by step, so the model returns the object as
  the last completed assignment left it, together with the outcome: \<open>Inr ()\<close> when the
  method returns, \<open>Inl e\<close> when it raises \<open>e\<close>. \<open>self.index\<close> is assigned only
  when the constructor on the right of the assignment returns, so a constructor that
  raises leaves the index that the object held before.
\<close>

definition construct_index ::
  "'ix faiss \<Rightarrow> real list list \<Rightarrow> 'ix FAISSIndex \<Rightarrow> (exn + unit) \<times> 'ix FAISSIndex" where
  "construct_index lib embeddings self =
    (if index_type self = ''flat'' then
       (case IndexFlatIP lib (embedding_dim self) of
          Inl e \<Rightarrow> (Inl e, self)
        | Inr ix \<Rightarrow> (Inr (), self\<lparr>index := Some ix\<rparr>))
     else if index_type self = ''ivf'' then
       (let nlist = min 100 (int (length embeddings) div 10)
        in case IndexFlatIP lib (embedding_dim self) of
             Inl e \<Rightarrow> (Inl e, self)
           | Inr quantizer \<Rightarrow>
               (case IndexIVFPQ lib quantizer (embedding_dim self) nlist 8 8 of
                  Inl e \<Rightarrow> (Inl e, self)
                | Inr ix \<Rightarrow>
                    (case faiss_train lib ix embeddings of
                       Inl e \<Rightarrow> (Inl e, self\<lparr>index := Some ix\<rparr>)
                     | Inr ix' \<Rightarrow> (Inr (), self\<lparr>index := Some ix'\<rparr>))))
     else if index_type self = ''hnsw'' then
       (case IndexHNSWFlat lib (embedding_dim self) 32 200 100 of
          Inl e \<Rightarrow> (Inl e, self)
        | Inr ix \<Rightarrow> (Inr (), self\<lparr>index := Some ix\<rparr>))
     else (Inr (), self))"

definition create_index ::
  "'ix faiss \<Rightarrow> real list list \<Rightarrow> (int, int) dict \<Rightarrow> 'ix FAISSIndex
     \<Rightarrow> (exn + unit) \<times> 'ix FAISSIndex" where
  "create_index lib embeddings mapping self0 =
    (let self1 = self0\<lparr>item_mapping := mapping, reverse_item_mapping := invert_dict mapping\<rparr>
     in case construct_index lib embeddings self1 of
          (Inl e, self2) \<Rightarrow> (Inl e, self2)
        | (Inr u, self2) \<Rightarrow>
            (case index self2 of
               None \<Rightarrow> (Inl AttributeError, self2)
             | Some ix \<Rightarrow>
                 (case faiss_add lib ix embeddings of
                    Inl e \<Rightarrow> (Inl e, self2)
                  | Inr ix' \<Rightarrow> (Inr (), self2\<lparr>index := Some ix'\<rparr>))))"

text \<open>
  The body of the loop \<open>for idx in indices[0]\<close>, shared word for word by \<open>search\<close> and
  \<open>batch_search\<close>: the internal index is compared with \<open>len(self.item_mapping)\<close> and
  looked up under the key \<open>idx + 1\<close>.
\<close>

definition movie_id_of :: "(int, int) dict \<Rightarrow> int \<Rightarrow> int" where
  "movie_id_of mapping idx =
    (if idx < int (dict_len mapping) then dict_get mapping (idx + 1) (idx + 1) else - 1)"

definition search ::
  "'ix faiss \<Rightarrow> 'ix FAISSIndex \<Rightarrow> real list \<Rightarrow> int \<Rightarrow> exn + (int list \<times> real list)" where
  "search lib self query_embedding k =
    (case index self of
       None \<Rightarrow> Inl ValueError
     | Some ix \<Rightarrow>
         (case faiss_search lib ix [query_embedding] k of
            Inl e \<Rightarrow> Inl e
          | Inr (scores, indices) \<Rightarrow>
              (case indices of
                 [] \<Rightarrow> Inl IndexError
               | row # _ \<Rightarrow>
                   (let movie_ids = map (movie_id_of (item_mapping self)) row
                    in case scores of
                         [] \<Rightarrow> Inl IndexError
                       | srow # _ \<Rightarrow> Inr (movie_ids, srow)))))"

text \<open>
  The loop \<open>for i in range(len(indices))\<close> of \<open>batch_search\<close>: row \<open>i\<close> of \<open>indices\<close> is
  translated and paired with \<open>scores[i]\<close>, which raises when \<open>scores\<close> has fewer rows.
\<close>

fun batch_rows ::
  "(int, int) dict \<Rightarrow> int list list \<Rightarrow> real list list \<Rightarrow> exn + (int list \<times> real list) list" where
  "batch_rows mapping [] scores = Inr []"
| "batch_rows mapping (row # indices) [] = Inl IndexError"
| "batch_rows mapping (row # indices) (srow # scores) =
     (case batch_rows mapping indices scores of
        Inl e \<Rightarrow> Inl e
      | Inr results \<Rightarrow> Inr ((map (movie_id_of mapping) row, srow) # results))"

definition batch_search ::
  "'ix faiss \<Rightarrow> 'ix FAISSIndex \<Rightarrow> real list list \<Rightarrow> int
     \<Rightarrow> exn + (int list \<times> real list) list" where
  "batch_search lib self query_embeddings k =
    (case index self of
       None \<Rightarrow> Inl ValueError
     | Some ix \<Rightarrow>
         (case faiss_search lib ix query_embeddings k of
            Inl e \<Rightarrow> Inl e
          | Inr (scores, indices) \<Rightarrow> batch_rows (item_mapping self) indices scores))"

section \<open>qdrant\_service.py\<close>

text \<open>
  \<open>enumerate\<close> and the decimal text of a natural number, as \<open>f"{i}"\<close> prints it.
\<close>

primrec enumerate_from :: "nat \<Rightarrow> 'a list \<Rightarrow> (nat \<times> 'a) list" where
  "enumerate_from i [] = []"
| "enumerate_from i (x # xs) = (i, x) # enumerate_from (Suc i) xs"

function str_nat :: "nat \<Rightarrow> string" where
  "str_nat n =
    (if n < 10 then [''0123456789'' ! n]
     else str_nat (n div 10) @ [''0123456789'' ! (n mod 10)])"
  by pat_completeness auto
termination
  by (relation "measure id") auto

text \<open>
  A payload is a dict with the six keys that \<open>insert_movies\<close> writes; a key that a
  stored payload lacks is \<open>None\<close>, which is also what \<open>payload.get(key)\<close> returns for it.
  A point is a \<open>PointStruct\<close>; a search hit is a \<open>ScoredPoint\<close>.
\<close>

record payload =
  payload_movie_id :: "int option"
  payload_title :: "string option"
  payload_genres :: "string list option"
  payload_year :: "int option"
  payload_rating :: "real option"
  payload_num_ratings :: "int option"

record user_payload =
  payload_user_id :: int
  payload_created_at :: "int option"

record 'p point =
  point_id :: int
  point_vector :: "real list"
  point_payload :: 'p

record scored_point =
  hit_id :: int
  hit_score :: real
  hit_payload :: payload

text \<open>One entry of the \<open>metadata\<close> argument of \<open>insert_movies\<close>: a dict read with \<open>get\<close>.\<close>

record movie_meta =
  meta_movie_id :: "int option"
  meta_title :: "string option"
  meta_genres :: "string list option"
  meta_year :: "int option"
  meta_rating :: "real option"
  meta_num_ratings :: "int option"

text \<open>
  The \<open>filters\<close> dict of a request, read under the four keys the service knows
  (\<open>genres\<close>, \<open>year_min\<close>, \<open>year_max\<close>, \<open>rating_min\<close>); a key that is not in the dict is
  \<open>None\<close>. Other keys are never read. The qdrant models built from it:
  \<open>FieldCondition(key, match=MatchValue(value))\<close>, \<open>FieldCondition(key, range=Range(gte, lte))\<close>
  and \<open>Filter(must=conditions)\<close>.
\<close>

record filters =
  filters_genres :: "string option"
  filters_year_min :: "real option"
  filters_year_max :: "real option"
  filters_rating_min :: "real option"

datatype field_condition =
  FieldMatch string string
| FieldRange string "real option" "real option"

datatype qfilter = Filter (must: "field_condition list")

definition build_conditions :: "filters \<Rightarrow> field_condition list" where
  "build_conditions f =
    (case filters_genres f of Some g \<Rightarrow> [FieldMatch ''genres'' g] | None \<Rightarrow> []) @
    (if filters_year_min f \<noteq> None \<or> filters_year_max f \<noteq> None
     then [FieldRange ''year'' (filters_year_min f) (filters_year_max f)] else []) @
    (case filters_rating_min f of Some r \<Rightarrow> [FieldRange ''rating'' (Some r) None] | None \<Rightarrow> [])"

definition build_filter :: "filters option \<Rightarrow> qfilter option" where
  "build_filter fs =
    (case fs of
       None \<Rightarrow> None
     | Some f \<Rightarrow> (if build_conditions f \<noteq> [] then Some (Filter (build_conditions f)) else None))"

text \<open>The dict that \<open>search_similar\<close> returns for one hit.\<close>

record movie_result =
  result_movie_id :: "int option"
  result_title :: "string option"
  result_genres :: "string list"
  result_year :: "int option"
  result_rating :: "real option"
  result_score :: real
  result_full_genres :: "string option"

definition format_result :: "scored_point \<Rightarrow> movie_result" where
  "format_result hit =
    \<lparr>result_movie_id = payload_movie_id (hit_payload hit),
     result_title = payload_title (hit_payload hit),
     result_genres = (case payload_genres (hit_payload hit) of Some gs \<Rightarrow> gs | None \<Rightarrow> []),
     result_year = payload_year (hit_payload hit),
     result_rating = payload_rating (hit_payload hit),
     result_score = hit_score hit,
     result_full_genres = None\<rparr>"

text \<open>
  The qdrant client is not part of the repository either: \<open>client_search\<close> is
  \<open>self.client.search(collection_name, query_vector, limit, query_filter, with_payload=True)\<close>
  on the collection of the service, an argument of \<open>search_similar\<close>.
\<close>

type_synonym client_search = "real list \<Rightarrow> int \<Rightarrow> qfilter option \<Rightarrow> exn + scored_point list"

definition search_similar ::
  "client_search \<Rightarrow> real list \<Rightarrow> int \<Rightarrow> filters option \<Rightarrow> exn + movie_result list" where
  "search_similar client_search query_embedding k fs =
    (case client_search query_embedding k (build_filter fs) of
       Inl e \<Rightarrow> Inl e
     | Inr results \<Rightarrow> Inr (map format_result results))"

text \<open>
  \<open>insert_movies\<close>: the first loop builds one point per pair of \<open>zip(embeddings, metadata)\<close>,
  the second sends them in batches of 100 with \<open>client.upsert\<close>, here \<open>upsert\<close>, acting
  on a client state \<open>'c\<close>. An exception of \<open>upsert\<close> ends the method.
\<close>

definition movie_points :: "real list list \<Rightarrow> movie_meta list \<Rightarrow> payload point list" where
  "movie_points embeddings metadata =
    map (\<lambda>(i, embedding, meta).
          \<lparr>point_id = int i,
           point_vector = embedding,
           point_payload =
             \<lparr>payload_movie_id = Some (case meta_movie_id meta of Some m \<Rightarrow> m | None \<Rightarrow> int i),
              payload_title =
                Some (case meta_title meta of Some t \<Rightarrow> t | None \<Rightarrow> ''Movie '' @ str_nat i),
              payload_genres = Some (case meta_genres meta of Some gs \<Rightarrow> gs | None \<Rightarrow> []),
              payload_year = Some (case meta_year meta of Some y \<Rightarrow> y | None \<Rightarrow> 0),
              payload_rating = Some (case meta_rating meta of Some r \<Rightarrow> r | None \<Rightarrow> 0),
              payload_num_ratings =
                Some (case meta_num_ratings meta of Some n \<Rightarrow> n | None \<Rightarrow> 0)\<rparr>\<rparr>)
        (enumerate_from 0 (zip embeddings metadata))"

function batches :: "nat \<Rightarrow> 'a list \<Rightarrow> 'a list list" where
  "batches n xs = (if n = 0 \<or> xs = [] then [] else take n xs # batches n (drop n xs))"
  by pat_completeness auto
termination
  by (relation "measure (\<lambda>(n, xs). length xs)") auto

fun upsert_batches :: "('c \<Rightarrow> 'a list \<Rightarrow> exn + 'c) \<Rightarrow> 'c \<Rightarrow> 'a list list \<Rightarrow> exn + 'c" where
  "upsert_batches upsert client [] = Inr client"
| "upsert_batches upsert client (batch # rest) =
     (case upsert client batch of
        Inl e \<Rightarrow> Inl e
      | Inr client' \<Rightarrow> upsert_batches upsert client' rest)"

definition insert_movies ::
  "('c \<Rightarrow> payload point list \<Rightarrow> exn + 'c) \<Rightarrow> 'c \<Rightarrow> real list list \<Rightarrow> movie_meta list
     \<Rightarrow> exn + 'c" where
  "insert_movies upsert client embeddings metadata =
    upsert_batches upsert client (batches 100 (movie_points embeddings metadata))"

text \<open>
  \<open>save_user_embedding\<close>: \<open>has_collection\<close> says whether \<open>client.get_collection\<close> on
  \<open>"user_embeddings"\<close> returns (any exception there leads to \<open>create_collection\<close> with
  \<open>size = len(embedding)\<close>); \<open>now\<close> is \<open>int(time.time())\<close>. Every exception is printed
  and raised again.
\<close>

definition user_point :: "int \<Rightarrow> real list \<Rightarrow> int \<Rightarrow> user_payload point" where
  "user_point user_id embedding now =
    \<lparr>point_id = user_id,
     point_vector = embedding,
     point_payload = \<lparr>payload_user_id = user_id, payload_created_at = Some now\<rparr>\<rparr>"

definition save_user_embedding ::
  "('c \<Rightarrow> bool) \<Rightarrow> ('c \<Rightarrow> nat \<Rightarrow> exn + 'c) \<Rightarrow> ('c \<Rightarrow> user_payload point list \<Rightarrow> exn + 'c)
     \<Rightarrow> int \<Rightarrow> 'c \<Rightarrow> int \<Rightarrow> real list \<Rightarrow> exn + 'c" where
  "save_user_embedding has_collection create_collection upsert now client user_id embedding =
    (case (if has_collection client then Inr client
           else create_collection client (length embedding)) of
       Inl e \<Rightarrow> Inl e
     | Inr client' \<Rightarrow> upsert client' [user_point user_id embedding now])"

text \<open>
  \<open>get_movie_by_id\<close>: \<open>client_scroll id\<close> is the list of records that
  \<open>self.client.scroll\<close> returns for the filter \<open>movie_id = id\<close> with limit 1, each with
  its payload and, when the server sends one, its vector. Every exception gives \<open>None\<close>.
\<close>

record scrolled_point =
  scrolled_payload :: payload
  scrolled_vector :: "real list option"

record movie_info =
  info_movie_id :: "int option"
  info_title :: "string option"
  info_genres :: "string list"
  info_year :: "int option"
  info_rating :: "real option"
  info_vector :: "real list"

type_synonym client_scroll = "int \<Rightarrow> exn + scrolled_point list"

definition get_movie_by_id :: "client_scroll \<Rightarrow> int \<Rightarrow> movie_info option" where
  "get_movie_by_id client_scroll movie_id =
    (case client_scroll movie_id of
       Inl e \<Rightarrow> None
     | Inr [] \<Rightarrow> None
     | Inr (result # _) \<Rightarrow>
         (case scrolled_vector result of
            None \<Rightarrow> None
          | Some vector \<Rightarrow>
              Some \<lparr>info_movie_id = payload_movie_id (scrolled_payload result),
                    info_title = payload_title (scrolled_payload result),
                    info_genres =
                      (case payload_genres (scrolled_payload result) of
                         Some gs \<Rightarrow> gs | None \<Rightarrow> []),
                    info_year = payload_year (scrolled_payload result),
                    info_rating = payload_rating (scrolled_payload result),
                    info_vector = vector\<rparr>))"

section \<open>embedding\_exporter.py\<close>

text \<open>
  \<open>np.linalg.norm\<close> and the division of a row by its norm, over the reals. For a row of
  norm 0 numpy produces \<open>nan\<close> components; HOL's \<open>x / 0\<close> is 0, so the theorems about
  \<open>normalize\<close> are stated for rows of non-zero norm only. \<open>weights\<close> is the weight
  matrix of the output embedding layer, \<open>forward\<close> the sequence model applied to one
  sequence and read at the last position.
\<close>

definition l2norm :: "real list \<Rightarrow> real" where
  "l2norm v = sqrt (sum_list (map (\<lambda>x. x * x) v))"

definition normalize :: "real list \<Rightarrow> real list" where
  "normalize v = map (\<lambda>x. x / l2norm v) v"

definition extract_item_embeddings :: "real list list \<Rightarrow> nat \<Rightarrow> real list list" where
  "extract_item_embeddings weights num_items = map normalize (take num_items (drop 1 weights))"

fun extract_user_embeddings ::
  "(int list \<Rightarrow> exn + real list) \<Rightarrow> int list list \<Rightarrow> exn + real list list" where
  "extract_user_embeddings forward [] = Inr []"
| "extract_user_embeddings forward (user_seq # user_sequences) =
     (case forward user_seq of
        Inl e \<Rightarrow> Inl e
      | Inr user_emb \<Rightarrow>
          (case extract_user_embeddings forward user_sequences of
             Inl e \<Rightarrow> Inl e
           | Inr user_embeddings \<Rightarrow> Inr (normalize user_emb # user_embeddings)))"

section \<open>api.py\<close>

text \<open>
  The module-level dict \<open>user_embeddings_cache\<close> is a map from user id to embedding.
  \<open>generate_user_sequence\<close> draws a sequence from a generator seeded with the user id:
  a function of the user id, the argument \<open>gen\<close>. The functions of this module that
  share a name with one of api\_ml32m\_vectorial.py carry the prefix \<open>api_\<close>.
\<close>

type_synonym embeddings_cache = "int \<rightharpoonup> real list"

definition api_get_user_embedding ::
  "(int \<Rightarrow> int list) \<Rightarrow> (int list \<Rightarrow> exn + real list) \<Rightarrow> embeddings_cache \<Rightarrow> int
     \<Rightarrow> (exn + real list) \<times> embeddings_cache" where
  "api_get_user_embedding gen forward cache user_id =
    (case cache user_id of
       Some user_embedding \<Rightarrow> (Inr user_embedding, cache)
     | None \<Rightarrow>
         (case extract_user_embeddings forward [gen user_id] of
            Inl e \<Rightarrow> (Inl e, cache)
          | Inr [] \<Rightarrow> (Inl IndexError, cache)
          | Inr (user_embedding # _) \<Rightarrow>
              (Inr user_embedding, cache(user_id \<mapsto> user_embedding))))"

record user_update_request =
  update_user_id :: int
  update_movie_id :: int
  update_rating :: real

record user_update_response =
  updated_user_id :: int
  updated_movie_id :: int
  updated_rating :: real

definition recalculate_user_embedding :: "embeddings_cache \<Rightarrow> int \<Rightarrow> embeddings_cache" where
  "recalculate_user_embedding cache user_id = cache(user_id := None)"

text \<open>
  \<open>update_user\<close> of api.py deletes the cache entry and schedules
  \<open>recalculate_user_embedding\<close>, which runs after the response is sent and deletes it
  again; the model returns the response and the cache once the background task has run.
\<close>

definition api_update_user ::
  "embeddings_cache \<Rightarrow> user_update_request \<Rightarrow> user_update_response \<times> embeddings_cache" where
  "api_update_user cache request =
    (let cache1 = cache(update_user_id request := None)
     in (\<lparr>updated_user_id = update_user_id request,
          updated_movie_id = update_movie_id request,
          updated_rating = update_rating request\<rparr>,
         recalculate_user_embedding cache1 (update_user_id request)))"

text \<open>
  \<open>recommend_fast\<close>: the embedding of the user, the FAISS search, and one
  recommendation for each returned movie id that \<open>get_movie_by_id\<close> finds in Qdrant.
  The user's sequence is read nowhere but inside \<open>get_user_embedding\<close>. Every exception
  becomes the 500 exception with the text of the exception. The response is modelled
  without its latency.
\<close>

record api_request =
  api_user_id :: int
  api_k :: int
  api_filters :: "filters option"

record fast_recommendation =
  fast_movie_id :: int
  fast_title :: "string option"
  fast_genres :: "string list"
  fast_year :: "int option"
  fast_score :: real

record fast_response =
  fast_user_id :: int
  fast_recommendations :: "fast_recommendation list"
  fast_method :: string

definition fast_recommendations_of ::
  "client_scroll \<Rightarrow> int list \<Rightarrow> real list \<Rightarrow> fast_recommendation list" where
  "fast_recommendations_of client_scroll movie_ids scores =
    concat (map (\<lambda>(movie_id, score).
                  (case get_movie_by_id client_scroll movie_id of
                     None \<Rightarrow> []
                   | Some movie_info \<Rightarrow>
                       [\<lparr>fast_movie_id = movie_id,
                         fast_title = info_title movie_info,
                         fast_genres = info_genres movie_info,
                         fast_year = info_year movie_info,
                         fast_score = score\<rparr>]))
              (zip movie_ids scores))"

definition recommend_fast ::
  "(int \<Rightarrow> int list) \<Rightarrow> (int list \<Rightarrow> exn + real list) \<Rightarrow> 'ix faiss \<Rightarrow> 'ix FAISSIndex
     \<Rightarrow> client_scroll \<Rightarrow> embeddings_cache \<Rightarrow> api_request
     \<Rightarrow> (http_exception + fast_response) \<times> embeddings_cache" where
  "recommend_fast gen forward lib faiss_index client_scroll cache request =
    (case api_get_user_embedding gen forward cache (api_user_id request) of
       (Inl e, cache1) \<Rightarrow> (Inl (HTTPException 500 (ExceptionDetail e)), cache1)
     | (Inr user_embedding, cache1) \<Rightarrow>
         (case search lib faiss_index user_embedding (api_k request) of
            Inl e \<Rightarrow> (Inl (HTTPException 500 (ExceptionDetail e)), cache1)
          | Inr (movie_ids, scores) \<Rightarrow>
              (Inr \<lparr>fast_user_id = api_user_id request,
                    fast_recommendations =
                      fast_recommendations_of client_scroll movie_ids scores,
                    fast_method = ''faiss_fast''\<rparr>,
               cache1)))"

section \<open>database.py\<close>

text \<open>
  The state of the two databases: \<open>mongo\<close> is the MongoDB database, of a type \<open>'m\<close> that
  only the driver reads, and \<open>user_sequence_cache\<close> is the part of Redis under the keys
  \<open>user_sequence:<id>\<close>, whose values are the sequences that \<open>get_user_sequence\<close> wrote
  with \<open>str\<close> and reads back with \<open>json.loads\<close>. The expiry of a key after 3600 seconds
  is not modelled. The driver calls that the two methods make are the fields of
  \<open>db_ops\<close>: \<open>find_one_rating\<close> says whether \<open>ratings.find_one({"userId": id})\<close> finds a
  document, \<open>find_ratings\<close> gives the \<open>movieId\<close> of the user's documents sorted by
  timestamp, \<open>update_one_rating\<close> is the upsert of one rating; each may raise. The Redis
  calls and \<open>json.loads\<close> act on the cache as a map when they return, and
  \<open>call_raises\<close> says which of them raise instead, and what: \<open>RedisGet id\<close>,
  \<open>RedisSetex id\<close> and \<open>RedisDelete id\<close> are the three calls on the key of user \<open>id\<close>,
  \<open>JsonLoads id\<close> is \<open>json.loads\<close> of the text found under that key.
\<close>

record 'm db_state =
  mongo :: 'm
  user_sequence_cache :: "int \<rightharpoonup> int list"

datatype store_call = RedisGet int | JsonLoads int | RedisSetex int | RedisDelete int

record 'm db_ops =
  find_one_rating :: "'m \<Rightarrow> int \<Rightarrow> exn + bool"
  find_ratings :: "'m \<Rightarrow> int \<Rightarrow> exn + int list"
  update_one_rating :: "'m \<Rightarrow> int \<Rightarrow> int \<Rightarrow> real \<Rightarrow> int \<Rightarrow> exn + 'm"
  call_raises :: "store_call \<Rightarrow> exn option"

text \<open>
  \<open>get_user_sequence\<close>: the whole body is inside a \<open>try\<close> whose \<open>except\<close> clause logs
  and returns the empty list, so every call that raises gives \<open>[]\<close>. When \<open>setex\<close>
  raises the key is taken not to have been written.
\<close>

definition ratings_sequence :: "'m db_ops \<Rightarrow> 'm db_state \<Rightarrow> int \<Rightarrow> int list \<times> 'm db_state" where
  "ratings_sequence ops db user_id =
    (case find_one_rating ops (mongo db) user_id of
       Inl e \<Rightarrow> ([], db)
     | Inr False \<Rightarrow> ([], db)
     | Inr True \<Rightarrow>
         (case find_ratings ops (mongo db) user_id of
            Inl e \<Rightarrow> ([], db)
          | Inr sequence \<Rightarrow>
              (case call_raises ops (RedisSetex user_id) of
                 Some e \<Rightarrow> ([], db)
               | None \<Rightarrow>
                   (sequence,
                    db\<lparr>user_sequence_cache :=
                         (user_sequence_cache db)(user_id \<mapsto> sequence)\<rparr>))))"

definition get_user_sequence ::
  "'m db_ops \<Rightarrow> 'm db_state \<Rightarrow> int \<Rightarrow> int list \<times> 'm db_state" where
  "get_user_sequence ops db user_id =
    (case call_raises ops (RedisGet user_id) of
       Some e \<Rightarrow> ([], db)
     | None \<Rightarrow>
         (case user_sequence_cache db user_id of
            Some cached \<Rightarrow>
              (case call_raises ops (JsonLoads user_id) of
                 Some e \<Rightarrow> ([], db)
               | None \<Rightarrow> (cached, db))
          | None \<Rightarrow> ratings_sequence ops db user_id))"

text \<open>
  \<open>update_user_rating\<close>: \<open>now\<close> is \<open>int(time.time())\<close>, used when no timestamp is given.
  The \<open>except\<close> clause logs and raises again, so an exception of \<open>update_one\<close> leaves the
  method before the line that deletes the cache key, and an exception of that line
  leaves it with the rating written and the key in place.
\<close>

definition update_user_rating ::
  "'m db_ops \<Rightarrow> int \<Rightarrow> 'm db_state \<Rightarrow> int \<Rightarrow> int \<Rightarrow> real \<Rightarrow> int option
     \<Rightarrow> (exn + unit) \<times> 'm db_state" where
  "update_user_rating ops now db user_id movie_id rating timestamp =
    (let ts = (case timestamp of None \<Rightarrow> now | Some t \<Rightarrow> t)
     in case update_one_rating ops (mongo db) user_id movie_id rating ts of
          Inl e \<Rightarrow> (Inl e, db)
        | Inr mongo' \<Rightarrow>
            (case call_raises ops (RedisDelete user_id) of
               Some e \<Rightarrow> (Inl e, db\<lparr>mongo := mongo'\<rparr>)
             | None \<Rightarrow>
                 (Inr (),
                  db\<lparr>mongo := mongo',
                     user_sequence_cache := (user_sequence_cache db)(user_id := None)\<rparr>)))"

section \<open>api\_ml32m\_vectorial.py\<close>

definition max_seq_len :: nat where
  "max_seq_len = 200"

text \<open>
  \<open>get_user_embedding\<close> of this module: \<open>model\<close> is \<open>None\<close> when no model was loaded,
  otherwise the forward pass read at the last position. Every exception gives \<open>None\<close>.
\<close>

definition get_user_embedding ::
  "(int list \<Rightarrow> exn + real list) option \<Rightarrow> int list \<Rightarrow> real list option" where
  "get_user_embedding model user_sequence =
    (case model of
       None \<Rightarrow> None
     | Some forward \<Rightarrow>
         (if user_sequence = [] then None
          else
            (let seq_len = min (length user_sequence) max_seq_len;
                 padded_sequence =
                   replicate (max_seq_len - seq_len) 0 @
                   drop (length user_sequence - seq_len) user_sequence
             in case forward padded_sequence of
                  Inl e \<Rightarrow> None
                | Inr user_embedding \<Rightarrow> Some user_embedding)))"

text \<open>
  The document that \<open>get_movie_metadata\<close> returns always has the keys \<open>title\<close>, \<open>year\<close>
  and \<open>genres\<close>, so the defaults of the three \<open>metadata.get\<close> calls are never used.
  The method itself reads and writes both databases and turns every exception into
  \<open>None\<close>; it is the argument \<open>get_movie_metadata\<close> of the functions below.
\<close>

record movie_metadata =
  metadata_title :: "string option"
  metadata_year :: "int option"
  metadata_genres :: string

type_synonym 'm get_movie_metadata =
  "'m db_state \<Rightarrow> int option \<Rightarrow> movie_metadata option \<times> 'm db_state"

fun enrich ::
  "'m get_movie_metadata \<Rightarrow> 'm db_state \<Rightarrow> movie_result list
     \<Rightarrow> movie_result list \<times> 'm db_state" where
  "enrich get_md db [] = ([], db)"
| "enrich get_md db (rec # recs) =
     (case get_md db (result_movie_id rec) of
        (metadata, db1) \<Rightarrow>
          (let rec' = (case metadata of
                         None \<Rightarrow> rec
                       | Some md \<Rightarrow>
                           rec\<lparr>result_title := metadata_title md,
                               result_year := metadata_year md,
                               result_full_genres := Some (metadata_genres md)\<rparr>)
           in case enrich get_md db1 recs of
                (recs', db2) \<Rightarrow> (rec' # recs', db2)))"

record recommendation_request =
  request_user_id :: int
  request_k :: int
  request_method :: string
  request_filters :: "filters option"

text \<open>The response without its two wall-clock fields.\<close>

record recommendation_response =
  response_user_id :: int
  response_recommendations :: "movie_result list"
  response_method :: string
  response_count :: nat
  response_user_history_size :: nat

text \<open>The module-level services that the endpoints use.\<close>

record 'm services =
  movie_db :: "'m db_ops"
  get_movie_metadata :: "'m get_movie_metadata"
  model :: "(int list \<Rightarrow> exn + real list) option"
  qdrant_search :: client_search

text \<open>\<open>movie["movie_id"] not in seen_movies\<close>, with \<open>seen_movies = set(user_sequence)\<close>.\<close>

definition not_seen :: "int list \<Rightarrow> movie_result \<Rightarrow> bool" where
  "not_seen user_sequence movie =
    (case result_movie_id movie of None \<Rightarrow> True | Some m \<Rightarrow> m \<notin> set user_sequence)"

definition recommend ::
  "'m services \<Rightarrow> 'm db_state \<Rightarrow> recommendation_request
     \<Rightarrow> (http_exception + recommendation_response) \<times> 'm db_state" where
  "recommend svc db request =
    (case get_user_sequence (movie_db svc) db (request_user_id request) of
       (user_sequence, db1) \<Rightarrow>
         (if user_sequence = [] then
            (Inl (HTTPException 404 (NoHistoryDetail (request_user_id request))), db1)
          else
            (case get_user_embedding (model svc) user_sequence of
               None \<Rightarrow> (Inl (HTTPException 500 EmbeddingErrorDetail), db1)
             | Some user_embedding \<Rightarrow>
                 (case search_similar (qdrant_search svc) user_embedding
                         (request_k request * 2) (request_filters request) of
                    Inl e \<Rightarrow> (Inl (HTTPException 500 (InternalErrorDetail e)), db1)
                  | Inr similar_movies \<Rightarrow>
                      (case enrich (get_movie_metadata svc) db1
                              (py_take (request_k request)
                                 (filter (not_seen user_sequence) similar_movies)) of
                         (recommendations, db2) \<Rightarrow>
                           (Inr \<lparr>response_user_id = request_user_id request,
                                 response_recommendations = recommendations,
                                 response_method = request_method request,
                                 response_count = length recommendations,
                                 response_user_history_size = length user_sequence\<rparr>,
                            db2))))))"

text \<open>\<open>update_user\<close> of this module; the response without its wall-clock field.\<close>

definition update_user ::
  "'m services \<Rightarrow> int \<Rightarrow> 'm db_state \<Rightarrow> user_update_request
     \<Rightarrow> (http_exception + user_update_response) \<times> 'm db_state" where
  "update_user svc now db request =
    (case update_user_rating (movie_db svc) now db (update_user_id request)
            (update_movie_id request) (update_rating request) None of
       (Inl e, db') \<Rightarrow> (Inl (HTTPException 500 (InternalErrorDetail e)), db')
     | (Inr u, db') \<Rightarrow>
         (Inr \<lparr>updated_user_id = update_user_id request,
               updated_movie_id = update_movie_id request,
               updated_rating = update_rating request\<rparr>,
          db'))"

section \<open>Reference backends\<close>

text \<open>
  Neither faiss nor the Qdrant server is in the repository. The general theorems below
  hold for every backend; concrete evaluations and the theorems about what a search
  returns or a collection holds need one, and use those of this section.

  Ranking, as the specification words it: descending similarity, ties broken by
  ascending id. \<open>ranks_before\<close> compares two (id, score) pairs and \<open>ranked\<close> says that
  a list of them is in that order.
\<close>

definition ranks_before :: "int \<times> real \<Rightarrow> int \<times> real \<Rightarrow> bool" where
  "ranks_before a b = (snd b < snd a \<or> (snd a = snd b \<and> fst a \<le> fst b))"

fun ranked :: "(int \<times> real) list \<Rightarrow> bool" where
  "ranked [] = True"
| "ranked [a] = True"
| "ranked (a # b # rest) = (ranks_before a b \<and> ranked (b # rest))"

fun rank_insert :: "('a \<Rightarrow> int \<times> real) \<Rightarrow> 'a \<Rightarrow> 'a list \<Rightarrow> 'a list" where
  "rank_insert key x [] = [x]"
| "rank_insert key x (y # ys) =
     (if ranks_before (key x) (key y) then x # y # ys else y # rank_insert key x ys)"

definition rank :: "('a \<Rightarrow> int \<times> real) \<Rightarrow> 'a list \<Rightarrow> 'a list" where
  "rank key xs = foldr (rank_insert key) xs []"

definition dot :: "real list \<Rightarrow> real list \<Rightarrow> real" where
  "dot u v = sum_list (map (\<lambda>(x, y). x * y) (zip u v))"

text \<open>
  Modelled from the spec: the Exact/flat variant of IndexBackend, which the repository
  takes from faiss (\<open>IndexFlatIP\<close>). The index is the list of the rows added to it, the
  internal index of a row is its position, a query is answered by a brute-force
  inner-product scan, and \<open>k\<close> must be at least 1. The same object stands for the two
  other constructors, whose training step does nothing here.
\<close>

definition flat_row :: "real list list \<Rightarrow> real list \<Rightarrow> int \<Rightarrow> (int \<times> real) list" where
  "flat_row rows query k =
    take (nat k) (rank id (map (\<lambda>(i, row). (int i, dot query row)) (enumerate_from 0 rows)))"

definition flat_search ::
  "real list list \<Rightarrow> real list list \<Rightarrow> int \<Rightarrow> exn + (real list list \<times> int list list)" where
  "flat_search rows queries k =
    (if k < 1 then Inl (LibraryError ''InvalidK'')
     else Inr (map (\<lambda>q. map snd (flat_row rows q k)) queries,
               map (\<lambda>q. map fst (flat_row rows q k)) queries))"

definition flat_faiss :: "real list list faiss" where
  "flat_faiss =
    \<lparr>IndexFlatIP = (\<lambda>d. Inr []),
     IndexIVFPQ = (\<lambda>quantizer d nlist m nbits. Inr []),
     IndexHNSWFlat = (\<lambda>d m efc efs. Inr []),
     faiss_train = (\<lambda>ix xs. Inr ix),
     faiss_add = (\<lambda>ix xs. Inr (ix @ xs)),
     faiss_search = flat_search\<rparr>"

text \<open>The same backend with an \<open>add\<close> that refuses an empty array.\<close>

definition strict_faiss :: "real list list faiss" where
  "strict_faiss =
    flat_faiss\<lparr>faiss_add :=
      (\<lambda>ix xs. if xs = [] then Inl (LibraryError ''empty array'') else Inr (ix @ xs))\<rparr>"

text \<open>
  Modelled from the spec: FilterEvaluator.matches, which the repository leaves to the
  Qdrant server. A payload is read by field name; a condition on a field that the
  payload lacks is false; a match on a list-valued field is membership; a range needs
  a numeric field; the conditions of \<open>must\<close> are evaluated left to right and all have
  to hold.
\<close>

datatype field_value = IntValue int | RealValue real | TextValue string | ListValue "string list"

definition payload_field :: "payload \<Rightarrow> string \<Rightarrow> field_value option" where
  "payload_field p key =
    (if key = ''movie_id'' then map_option IntValue (payload_movie_id p)
     else if key = ''title'' then map_option TextValue (payload_title p)
     else if key = ''genres'' then map_option ListValue (payload_genres p)
     else if key = ''year'' then map_option IntValue (payload_year p)
     else if key = ''rating'' then map_option RealValue (payload_rating p)
     else if key = ''num_ratings'' then map_option IntValue (payload_num_ratings p)
     else None)"

definition in_range :: "real \<Rightarrow> real option \<Rightarrow> real option \<Rightarrow> bool" where
  "in_range x lo hi =
    ((case lo of None \<Rightarrow> True | Some l \<Rightarrow> l \<le> x) \<and> (case hi of None \<Rightarrow> True | Some h \<Rightarrow> x \<le> h))"

fun condition_matches :: "payload \<Rightarrow> field_condition \<Rightarrow> bool" where
  "condition_matches p (FieldMatch key v) =
     (case payload_field p key of
        Some (TextValue t) \<Rightarrow> t = v
      | Some (ListValue ts) \<Rightarrow> v \<in> set ts
      | _ \<Rightarrow> False)"
| "condition_matches p (FieldRange key lo hi) =
     (case payload_field p key of
        Some (IntValue n) \<Rightarrow> in_range (of_int n) lo hi
      | Some (RealValue x) \<Rightarrow> in_range x lo hi
      | _ \<Rightarrow> False)"

definition matches :: "payload \<Rightarrow> qfilter option \<Rightarrow> bool" where
  "matches p query_filter =
    (case query_filter of None \<Rightarrow> True | Some f \<Rightarrow> list_all (condition_matches p) (must f))"

text \<open>
  Modelled from the spec: IndexBackend.search over the points of a collection, which
  the repository leaves to the Qdrant server. \<open>k\<close> must lie between 1 and \<open>max_k\<close>;
  the points are ranked by score; with a filter, the first \<open>overfetch * k\<close> candidates
  are evaluated against it before truncation to \<open>k\<close>, and nothing is added when fewer
  than \<open>k\<close> survive. The score is the dot product, the vectors being of unit length.
\<close>

record search_config =
  overfetch :: nat
  max_k :: int

definition hit_of :: "real list \<Rightarrow> payload point \<Rightarrow> scored_point" where
  "hit_of query p =
    \<lparr>hit_id = point_id p, hit_score = dot query (point_vector p), hit_payload = point_payload p\<rparr>"

definition collection_search :: "search_config \<Rightarrow> payload point list \<Rightarrow> client_search" where
  "collection_search cfg points query k query_filter =
    (if k < 1 \<or> max_k cfg < k then Inl (LibraryError ''InvalidK'')
     else
       (let candidates = rank (\<lambda>h. (hit_id h, hit_score h)) (map (hit_of query) points)
        in case query_filter of
             None \<Rightarrow> Inr (take (nat k) candidates)
           | Some f \<Rightarrow>
               Inr (take (nat k)
                      (filter (\<lambda>h. matches (hit_payload h) query_filter)
                         (take (overfetch cfg * nat k) candidates)))))"

text \<open>
  Modelled from the spec: VectorStore.put, which the repository leaves to the Qdrant
  server (both collections are created with \<open>Distance.COSINE\<close>). A store has a
  dimension and holds points; \<open>put\<close> refuses a vector of another length, brings the
  vector to unit length, and inserts the point or replaces the one that has its id.
  \<open>store_upsert\<close> puts the points of a batch one after the other. The collection of
  user embeddings is \<open>None\<close> until it is created.
\<close>

record 'p vector_store =
  store_dimension :: nat
  store_points :: "'p point list"

definition store_put :: "'p point \<Rightarrow> 'p vector_store \<Rightarrow> exn + 'p vector_store" where
  "store_put p s =
    (if length (point_vector p) \<noteq> store_dimension s then Inl (LibraryError ''DimensionMismatch'')
     else
       (let q = p\<lparr>point_vector := normalize (point_vector p)\<rparr>
        in Inr (s\<lparr>store_points :=
                  (if point_id p \<in> point_id ` set (store_points s)
                   then map (\<lambda>r. if point_id r = point_id p then q else r) (store_points s)
                   else store_points s @ [q])\<rparr>)))"

fun store_upsert :: "'p vector_store \<Rightarrow> 'p point list \<Rightarrow> exn + 'p vector_store" where
  "store_upsert s [] = Inr s"
| "store_upsert s (p # ps) =
     (case store_put p s of
        Inl e \<Rightarrow> Inl e
      | Inr s' \<Rightarrow> store_upsert s' ps)"

definition user_has_collection :: "user_payload vector_store option \<Rightarrow> bool" where
  "user_has_collection client = (client \<noteq> None)"

definition user_create_collection ::
  "user_payload vector_store option \<Rightarrow> nat \<Rightarrow> exn + user_payload vector_store option" where
  "user_create_collection client dimension =
    Inr (Some \<lparr>store_dimension = dimension, store_points = []\<rparr>)"

definition user_upsert ::
  "user_payload vector_store option \<Rightarrow> user_payload point list
     \<Rightarrow> exn + user_payload vector_store option" where
  "user_upsert client points =
    (case client of
       None \<Rightarrow> Inl (LibraryError ''NotFound'')
     | Some s \<Rightarrow>
         (case store_upsert s points of
            Inl e \<Rightarrow> Inl e
          | Inr s' \<Rightarrow> Inr (Some s')))"

text \<open>
  The filter of a request as the specification reads it: genre equality, a year range
  with an optional minimum and maximum, a minimum rating, each false on a payload that
  lacks the field.
\<close>

definition satisfies :: "payload \<Rightarrow> filters \<Rightarrow> bool" where
  "satisfies p f =
    ((case filters_genres f of
        None \<Rightarrow> True
      | Some g \<Rightarrow> (case payload_genres p of None \<Rightarrow> False | Some gs \<Rightarrow> g \<in> set gs)) \<and>
     (if filters_year_min f = None \<and> filters_year_max f = None then True
      else (case payload_year p of
              None \<Rightarrow> False
            | Some y \<Rightarrow>
                (case filters_year_min f of None \<Rightarrow> True | Some lo \<Rightarrow> lo \<le> of_int y) \<and>
                (case filters_year_max f of None \<Rightarrow> True | Some hi \<Rightarrow> of_int y \<le> hi))) \<and>
     (case filters_rating_min f of
        None \<Rightarrow> True
      | Some r \<Rightarrow> (case payload_rating p of None \<Rightarrow> False | Some x \<Rightarrow> r \<le> x)))"

section \<open>Properties and sample data\<close>

text \<open>
  \<open>translates mapping row ids\<close>: \<open>ids\<close> is the row of internal indices \<open>row\<close> translated
  position by position, an index below \<open>len(mapping)\<close> by the entry under index + 1
  (or index + 1 itself when there is none), any other index to -1.
\<close>

definition translates :: "(int, int) dict \<Rightarrow> int list \<Rightarrow> int list \<Rightarrow> bool" where
  "translates m row ids =
    (length ids = length row \<and>
     (\<forall>j < length row.
        (row ! j < int (dict_len m) \<longrightarrow>
           ids ! j = (case map_of m (row ! j + 1) of Some v \<Rightarrow> v | None \<Rightarrow> row ! j + 1)) \<and>
        (int (dict_len m) \<le> row ! j \<longrightarrow> ids ! j = - 1)))"

text \<open>
  \<open>unit_vectors points\<close>: every point of the list carries a vector of L2 norm 1.
\<close>

definition unit_vectors :: "'p point list \<Rightarrow> bool" where
  "unit_vectors points = (\<forall>p \<in> set points. l2norm (point_vector p) = 1)"

text \<open>
  \<open>per_query lib ix\<close>: the backend answers a batch row by row: a batch that returns has
  one row per query, equal to the answer to that query alone, and a batch that raises
  does so for each of its queries alone as well.
\<close>

definition per_query :: "'ix faiss \<Rightarrow> 'ix \<Rightarrow> bool" where
  "per_query lib ix =
    (\<forall>qs k.
       (case faiss_search lib ix qs k of
          Inl e \<Rightarrow> (\<forall>i < length qs. faiss_search lib ix [qs ! i] k = Inl e)
        | Inr (scores, indices) \<Rightarrow>
            length scores = length qs \<and> length indices = length qs \<and>
            (\<forall>i < length qs.
               faiss_search lib ix [qs ! i] k = Inr ([scores ! i], [indices ! i]))))"

text \<open>
  A flat index of three rows whose mapping has two entries, one of them under a key
  that no row reaches.
\<close>

definition sample_index :: "real list list FAISSIndex" where
  "sample_index =
    \<lparr>embedding_dim = 2, index_type = ''flat'',
     index = Some [[1, 0], [0, 1], [1, 1]],
     item_mapping = [(1, 10), (5, 50)],
     reverse_item_mapping = [(10, 1), (50, 5)]\<rparr>"

text \<open>
  An object on which \<open>create_index\<close> was never called, and the index built on it from
  two rows that are both orthogonal to the query \<open>[1, 0]\<close>, with movie ids 5 and 3.
\<close>

definition new_index :: "real list list FAISSIndex" where
  "new_index =
    \<lparr>embedding_dim = 2, index_type = ''flat'', index = None,
     item_mapping = [], reverse_item_mapping = []\<rparr>"

definition tied_index :: "real list list FAISSIndex" where
  "tied_index = snd (create_index flat_faiss [[0, 1], [0, 1]] [(1, 5), (2, 3)] new_index)"

text \<open>The index built from the two unit rows of the plane, with movie ids 10 and 20.\<close>

definition built_index :: "real list list FAISSIndex" where
  "built_index = snd (create_index flat_faiss [[1, 0], [0, 1]] [(1, 10), (2, 20)] new_index)"

text \<open>
  Sample services. The MongoDB stand-in keeps, per user, the movie ids of the user's
  ratings in timestamp order, a new rating moves its movie to the end, and no Redis
  call raises;
  \<open>failing_mongo_ops\<close> is the same store with a write that raises. The collection
  holds three movies, written by \<open>movie_points\<close>; the model returns the first unit
  vector for every sequence; no movie has metadata in MongoDB.
\<close>

definition sample_mongo_ops :: "(int \<times> int list) list db_ops" where
  "sample_mongo_ops =
    \<lparr>find_one_rating = (\<lambda>m u. Inr (case map_of m u of None \<Rightarrow> False | Some s \<Rightarrow> s \<noteq> [])),
     find_ratings = (\<lambda>m u. Inr (case map_of m u of None \<Rightarrow> [] | Some s \<Rightarrow> s)),
     update_one_rating =
       (\<lambda>m u movie r ts.
          Inr (AList.update u
                 ((case map_of m u of None \<Rightarrow> [] | Some s \<Rightarrow> filter (\<lambda>x. x \<noteq> movie) s) @ [movie])
                 m)),
     call_raises = (\<lambda>c. None)\<rparr>"

definition failing_mongo_ops :: "(int \<times> int list) list db_ops" where
  "failing_mongo_ops =
    sample_mongo_ops\<lparr>update_one_rating :=
      (\<lambda>m u movie r ts. Inl (LibraryError ''connection lost''))\<rparr>"

definition sample_db :: "(int \<times> int list) list db_state" where
  "sample_db = \<lparr>mongo = [(7, [10])], user_sequence_cache = Map.empty\<rparr>"

definition sample_db_cached :: "(int \<times> int list) list db_state" where
  "sample_db_cached = \<lparr>mongo = [(7, [10])], user_sequence_cache = [7 \<mapsto> [10]]\<rparr>"

definition sample_meta :: "int \<Rightarrow> string \<Rightarrow> int \<Rightarrow> movie_meta" where
  "sample_meta movie genre year =
    \<lparr>meta_movie_id = Some movie, meta_title = None, meta_genres = Some [genre],
     meta_year = Some year, meta_rating = Some 4, meta_num_ratings = None\<rparr>"

definition sample_points :: "payload point list" where
  "sample_points =
    movie_points [[1, 0], [0, 1], [3 / 5, 4 / 5]]
      [sample_meta 10 ''Drama'' 1995, sample_meta 20 ''Drama'' 2005,
       sample_meta 30 ''Comedy'' 2005]"

definition sample_config :: search_config where
  "sample_config = \<lparr>overfetch = 3, max_k = 200\<rparr>"

definition sample_services :: "(int \<times> int list) list services" where
  "sample_services =
    \<lparr>movie_db = sample_mongo_ops,
     get_movie_metadata = (\<lambda>db movie. (None, db)),
     model = Some (\<lambda>s. Inr [1, 0]),
     qdrant_search = collection_search sample_config sample_points\<rparr>"

definition sample_request :: "int \<Rightarrow> recommendation_request" where
  "sample_request user =
    \<lparr>request_user_id = user, request_k = 1, request_method = ''vectorial'',
     request_filters = None\<rparr>"

definition sample_result :: "int \<Rightarrow> string \<Rightarrow> string \<Rightarrow> int \<Rightarrow> real \<Rightarrow> movie_result" where
  "sample_result movie title genre year score =
    \<lparr>result_movie_id = Some movie, result_title = Some title, result_genres = [genre],
     result_year = Some year, result_rating = Some 4, result_score = score,
     result_full_genres = None\<rparr>"

definition failing_services :: "(int \<times> int list) list services" where
  "failing_services = sample_services\<lparr>movie_db := failing_mongo_ops\<rparr>"

definition sample_update :: user_update_request where
  "sample_update = \<lparr>update_user_id = 7, update_movie_id = 20, update_rating = 9 / 2\<rparr>"

text \<open>
  A cache of api.py that holds an embedding for user 7, whose generated sequence is
  \<open>[10]\<close> and whose model output is the second unit vector.
\<close>

definition sample_cache :: embeddings_cache where
  "sample_cache = [7 \<mapsto> [1, 0]]"

definition sample_gen :: "int \<Rightarrow> int list" where
  "sample_gen user = [10]"

definition sample_forward :: "int list \<Rightarrow> exn + real list" where
  "sample_forward s = Inr [0, 1]"

text \<open>
  A request filter for dramas from the year 2000 on, and a payload that has no year.
\<close>

definition drama_filter :: filters where
  "drama_filter =
    \<lparr>filters_genres = Some ''Drama'', filters_year_min = Some 2000, filters_year_max = None,
     filters_rating_min = None\<rparr>"

definition no_year_payload :: payload where
  "no_year_payload =
    \<lparr>payload_movie_id = Some 40, payload_title = None, payload_genres = Some [''Drama''],
     payload_year = None, payload_rating = Some 4, payload_num_ratings = None\<rparr>"

text \<open>
  A backend whose \<open>IndexIVFPQ\<close> refuses a dimension that its number of sub-quantizers
  does not divide, and an object of type \<open>ivf\<close> and dimension 3 that holds an index of
  two rows.
\<close>

definition narrow_faiss :: "real list list faiss" where
  "narrow_faiss =
    flat_faiss\<lparr>IndexIVFPQ :=
      (\<lambda>quantizer d nlist m nbits.
         if d mod m \<noteq> 0 then Inl (LibraryError ''d % M != 0'') else Inr [])\<rparr>"

definition ivf_index :: "real list list FAISSIndex" where
  "ivf_index =
    \<lparr>embedding_dim = 3, index_type = ''ivf'', index = Some [[1, 0, 0], [0, 1, 0]],
     item_mapping = [(1, 10), (2, 20)], reverse_item_mapping = [(10, 1), (20, 2)]\<rparr>"

text \<open>
  Sample data for api.py: a generated sequence that contains movies 20 and 30, a
  scroll answered from a list of points, and a request for one recommendation. And for
  api\_ml32m\_vectorial.py: databases in which the cached sequence of user 7 lacks a
  rating that MongoDB holds, services whose MongoDB cannot be reached, and services
  whose Redis refuses to write the key of user 7.
\<close>

definition fast_gen :: "int \<Rightarrow> int list" where
  "fast_gen user = [20, 30]"

definition points_scroll :: "payload point list \<Rightarrow> client_scroll" where
  "points_scroll points movie_id =
    Inr (map (\<lambda>p. \<lparr>scrolled_payload = point_payload p, scrolled_vector = Some (point_vector p)\<rparr>)
           (take 1 (filter (\<lambda>p. payload_movie_id (point_payload p) = Some movie_id) points)))"

definition sample_api_request :: api_request where
  "sample_api_request = \<lparr>api_user_id = 7, api_k = 1, api_filters = None\<rparr>"

definition stale_db :: "(int \<times> int list) list db_state" where
  "stale_db = \<lparr>mongo = [(7, [10, 30])], user_sequence_cache = [7 \<mapsto> [10]]\<rparr>"

definition unreachable_services :: "(int \<times> int list) list services" where
  "unreachable_services =
    sample_services\<lparr>movie_db :=
      sample_mongo_ops\<lparr>find_one_rating := (\<lambda>m u. Inl (LibraryError ''connection lost''))\<rparr>\<rparr>"

definition read_only_services :: "(int \<times> int list) list services" where
  "read_only_services =
    sample_services\<lparr>movie_db :=
      sample_mongo_ops\<lparr>call_raises :=
        (\<lambda>c. if c = RedisSetex 7 then Some (LibraryError ''read only'') else None)\<rparr>\<rparr>"

text \<open>An empty collection of dimension 2.\<close>

definition empty_store :: "'p vector_store" where
  "empty_store = \<lparr>store_dimension = 2, store_points = []\<rparr>"

section \<open>The FAISS wrapper: translation of internal indices\<close>

lemma movie_id_of_cases:
  "movie_id_of m idx =
    (if idx < int (dict_len m)
     then (case map_of m (idx + 1) of Some v \<Rightarrow> v | None \<Rightarrow> idx + 1)
     else - 1)"
  by (simp add: movie_id_of_def dict_get_def)

lemma translates_map: "translates m row (map (movie_id_of m) row)"
  by (simp add: translates_def movie_id_of_cases)

lemma search_built:
  assumes "index self = Some ix"
    and "faiss_search lib ix [q] k = Inr (srow # scores, row # indices)"
  shows "search lib self q k = Inr (map (movie_id_of (item_mapping self)) row, srow)"
  using assms by (simp add: search_def)

lemma batch_rows_zip:
  "length indices \<le> length scores \<Longrightarrow>
   batch_rows m indices scores =
     Inr (map (\<lambda>(row, srow). (map (movie_id_of m) row, srow)) (zip indices scores))"
proof (induction indices arbitrary: scores)
  case Nil
  then show ?case by simp
next
  case (Cons row indices)
  then obtain srow rest where s: "scores = srow # rest"
    by (cases scores) auto
  with Cons show ?case by simp
qed

lemma batch_search_built:
  assumes "index self = Some ix"
    and "faiss_search lib ix qs k = Inr (scores, indices)"
    and "length indices \<le> length scores"
  shows "batch_search lib self qs k =
     Inr (map (\<lambda>(row, srow). (map (movie_id_of (item_mapping self)) row, srow))
            (zip indices scores))"
  using assms by (simp add: batch_search_def batch_rows_zip)

lemma flat_row_sample: "flat_row [[1, 0], [0, 1], [1, 1]] [1, 0] 3 = [(0, 1), (2, 1), (1, 0)]"
  by (simp add: flat_row_def rank_def dot_def ranks_before_def)

lemma flat_search_sample:
  "faiss_search flat_faiss [[1, 0], [0, 1], [1, 1]] [[1, 0]] 3 = Inr ([[1, 1, 0]], [[0, 2, 1]])"
  by (simp add: flat_faiss_def flat_search_def flat_row_sample)

lemma sample_search: "search flat_faiss sample_index [1, 0] 3 = Inr ([10, - 1, 2], [1, 1, 0])"
  by (simp add: search_def sample_index_def flat_search_sample movie_id_of_def dict_len_def
      dict_get_def)

lemma sample_batch_search:
  "batch_search flat_faiss sample_index [[1, 0]] 3 = Inr [([10, - 1, 2], [1, 1, 0])]"
  by (simp add: batch_search_def sample_index_def flat_search_sample movie_id_of_def
      dict_len_def dict_get_def)

text \<open>
  C10. On a built index, whenever the backend returns its two arrays, \<open>search\<close> returns
  too, with the backend's score row and one id per internal index of the row: the entry
  of the mapping under index + 1, or index + 1 when the mapping has no such key, for an
  index below the size of the mapping, and -1 for every other index. \<open>batch_search\<close>
  does the same for each row of the batch.
\<close>

theorem search_ids_total:
  assumes "index self = Some ix"
  shows "(faiss_search lib ix [q] k = Inr (srow # scores, row # indices) \<longrightarrow>
           (\<exists>ids. search lib self q k = Inr (ids, srow) \<and>
                  translates (item_mapping self) row ids)) \<and>
         (faiss_search lib ix qs k = Inr (bscores, bindices) \<and>
            length bindices \<le> length bscores \<longrightarrow>
           (\<exists>results. batch_search lib self qs k = Inr results \<and>
                      length results = length bindices \<and>
                      (\<forall>i < length bindices.
                         translates (item_mapping self) (bindices ! i) (fst (results ! i)))))"
proof (intro conjI impI)
  assume "faiss_search lib ix [q] k = Inr (srow # scores, row # indices)"
  with assms have "search lib self q k = Inr (map (movie_id_of (item_mapping self)) row, srow)"
    by (rule search_built)
  then show "\<exists>ids. search lib self q k = Inr (ids, srow) \<and>
                  translates (item_mapping self) row ids"
    by (simp add: translates_map)
next
  assume a: "faiss_search lib ix qs k = Inr (bscores, bindices) \<and>
            length bindices \<le> length bscores"
  let ?rs = "map (\<lambda>(row, srow). (map (movie_id_of (item_mapping self)) row, srow))
            (zip bindices bscores)"
  from assms a have "batch_search lib self qs k = Inr ?rs"
    by (simp add: batch_search_built)
  moreover have "length ?rs = length bindices" using a by simp
  moreover have "\<forall>i < length bindices.
                         translates (item_mapping self) (bindices ! i) (fst (?rs ! i))"
    using a by (simp add: translates_map)
  ultimately show "\<exists>results. batch_search lib self qs k = Inr results \<and>
                      length results = length bindices \<and>
                      (\<forall>i < length bindices.
                         translates (item_mapping self) (bindices ! i) (fst (results ! i)))"
    by blast
qed

theorem search_ids_total_witness:
  "index sample_index = Some [[1, 0], [0, 1], [1, 1]] \<and>
   faiss_search flat_faiss [[1, 0], [0, 1], [1, 1]] [[1, 0]] 3 = Inr ([[1, 1, 0]], [[0, 2, 1]]) \<and>
   search flat_faiss sample_index [1, 0] 3 = Inr ([10, - 1, 2], [1, 1, 0]) \<and>
   translates (item_mapping sample_index) [0, 2, 1] [10, - 1, 2] \<and>
   batch_search flat_faiss sample_index [[1, 0]] 3 = Inr [([10, - 1, 2], [1, 1, 0])]"
proof -
  have built: "index sample_index = Some [[1, 0], [0, 1], [1, 1]]"
    by (simp add: sample_index_def)
  note t = search_ids_total [OF built, of flat_faiss "[1, 0]" 3 "[1, 1, 0]" "[]" "[0, 2, 1]" "[]"
      "[[1, 0]]" "[[1, 1, 0]]" "[[0, 2, 1]]"]
  from t flat_search_sample obtain ids where
    s: "search flat_faiss sample_index [1, 0] 3 = Inr (ids, [1, 1, 0])"
    and tr: "translates (item_mapping sample_index) [0, 2, 1] ids"
    by auto
  from s sample_search have ids: "ids = [10, - 1, 2]" by simp
  show ?thesis using built flat_search_sample s tr ids sample_batch_search by simp
qed

section \<open>Batch search against single search\<close>

lemma per_query_Inl:
  "per_query lib ix \<Longrightarrow> faiss_search lib ix qs k = Inl e \<Longrightarrow> i < length qs \<Longrightarrow>
   faiss_search lib ix [qs ! i] k = Inl e"
  unfolding per_query_def
  by (erule allE [of _ qs], erule allE [of _ k]) simp

lemma per_query_Inr:
  "per_query lib ix \<Longrightarrow> faiss_search lib ix qs k = Inr (scores, indices) \<Longrightarrow>
   length scores = length qs \<and> length indices = length qs \<and>
   (\<forall>i < length qs. faiss_search lib ix [qs ! i] k = Inr ([scores ! i], [indices ! i]))"
  unfolding per_query_def
  by (erule allE [of _ qs], erule allE [of _ k]) simp

lemma flat_per_query: "per_query flat_faiss rows"
  unfolding per_query_def
proof (intro allI)
  fix qs :: "real list list" and k :: int
  show "case faiss_search flat_faiss rows qs k of
          Inl e \<Rightarrow> (\<forall>i < length qs. faiss_search flat_faiss rows [qs ! i] k = Inl e)
        | Inr (scores, indices) \<Rightarrow>
            length scores = length qs \<and> length indices = length qs \<and>
            (\<forall>i < length qs.
               faiss_search flat_faiss rows [qs ! i] k = Inr ([scores ! i], [indices ! i]))"
    by (cases "k < 1") (simp_all add: flat_faiss_def flat_search_def)
qed

text \<open>
  C7. For every object, list of queries and \<open>k\<close>, on a backend that answers a batch row
  by row: \<open>batch_search\<close> returns one result per query, and the result at position \<open>i\<close>
  is what \<open>search\<close> returns for query \<open>i\<close> alone; when \<open>batch_search\<close> raises (no index
  built, or the backend raises), \<open>search\<close> raises the same exception for each query.
\<close>

theorem batch_search_matches_search:
  assumes "\<forall>ix. index self = Some ix \<longrightarrow> per_query lib ix"
  shows "case batch_search lib self qs k of
           Inl e \<Rightarrow> (\<forall>i < length qs. search lib self (qs ! i) k = Inl e)
         | Inr results \<Rightarrow>
             length results = length qs \<and>
             (\<forall>i < length qs. search lib self (qs ! i) k = Inr (results ! i))"
proof (cases "index self")
  case None
  then show ?thesis by (simp add: batch_search_def search_def)
next
  case (Some ix)
  with assms have pq: "per_query lib ix" by simp
  show ?thesis
  proof (cases "faiss_search lib ix qs k")
    case (Inl e)
    with pq have "\<forall>i < length qs. faiss_search lib ix [qs ! i] k = Inl e"
      by (simp add: per_query_Inl)
    with Some Inl show ?thesis by (simp add: batch_search_def search_def)
  next
    case (Inr p)
    obtain scores indices where p: "p = (scores, indices)" by (cases p)
    from per_query_Inr [OF pq Inr [unfolded p]]
    have len: "length scores = length qs" "length indices = length qs"
      and rows: "\<forall>i < length qs. faiss_search lib ix [qs ! i] k = Inr ([scores ! i], [indices ! i])"
      by simp_all
    from Some Inr p len have b: "batch_search lib self qs k =
       Inr (map (\<lambda>(row, srow). (map (movie_id_of (item_mapping self)) row, srow))
            (zip indices scores))"
      by (simp add: batch_search_built)
    have "\<forall>i < length qs. search lib self (qs ! i) k =
        Inr (map (movie_id_of (item_mapping self)) (indices ! i), scores ! i)"
      using rows Some by (simp add: search_built)
    with b len show ?thesis by simp
  qed
qed

lemma flat_row_second: "flat_row [[1, 0], [0, 1], [1, 1]] [0, 1] 3 = [(1, 1), (2, 1), (0, 0)]"
  by (simp add: flat_row_def rank_def dot_def ranks_before_def)

lemma flat_search_batch:
  "faiss_search flat_faiss [[1, 0], [0, 1], [1, 1]] [[1, 0], [0, 1]] 3 =
     Inr ([[1, 1, 0], [1, 1, 0]], [[0, 2, 1], [1, 2, 0]])"
  by (simp add: flat_faiss_def flat_search_def flat_row_sample flat_row_second)

lemma sample_batch_two:
  "batch_search flat_faiss sample_index [[1, 0], [0, 1]] 3 =
     Inr [([10, - 1, 2], [1, 1, 0]), ([2, - 1, 10], [1, 1, 0])]"
  by (simp add: batch_search_def sample_index_def flat_search_batch movie_id_of_def
      dict_len_def dict_get_def)

theorem batch_search_matches_search_witness:
  "index sample_index = Some [[1, 0], [0, 1], [1, 1]] \<and>
   per_query flat_faiss [[1, 0], [0, 1], [1, 1]] \<and>
   batch_search flat_faiss sample_index [[1, 0], [0, 1]] 3 =
     Inr [([10, - 1, 2], [1, 1, 0]), ([2, - 1, 10], [1, 1, 0])] \<and>
   search flat_faiss sample_index [1, 0] 3 = Inr ([10, - 1, 2], [1, 1, 0]) \<and>
   search flat_faiss sample_index [0, 1] 3 = Inr ([2, - 1, 10], [1, 1, 0])"
proof -
  have pq: "\<forall>ix. index sample_index = Some ix \<longrightarrow> per_query flat_faiss ix"
    by (simp add: flat_per_query)
  from batch_search_matches_search [OF pq, of "[[1, 0], [0, 1]]" 3]
  have every: "\<forall>i < 2. search flat_faiss sample_index ([[1, 0], [0, 1]] ! i) 3 =
          Inr ([([10, - 1, 2], [1, 1, 0]), ([2, - 1, 10], [1, 1, 0])] ! i)"
    by (simp add: sample_batch_two)
  from every [rule_format, of 0]
  have first: "search flat_faiss sample_index [1, 0] 3 = Inr ([10, - 1, 2], [1, 1, 0])"
    by simp
  from every [rule_format, of 1]
  have "search flat_faiss sample_index [0, 1] 3 = Inr ([2, - 1, 10], [1, 1, 0])"
    by simp
  with first show ?thesis
    using sample_batch_two flat_per_query [of "[[1, 0], [0, 1], [1, 1]]"]
    by (simp add: sample_index_def)
qed

section \<open>The sample collection\<close>

lemma sample_points_eq:
  "sample_points =
    [\<lparr>point_id = 0, point_vector = [1, 0],
      point_payload = \<lparr>payload_movie_id = Some 10, payload_title = Some ''Movie 0'',
        payload_genres = Some [''Drama''], payload_year = Some 1995, payload_rating = Some 4,
        payload_num_ratings = Some 0\<rparr>\<rparr>,
     \<lparr>point_id = 1, point_vector = [0, 1],
      point_payload = \<lparr>payload_movie_id = Some 20, payload_title = Some ''Movie 1'',
        payload_genres = Some [''Drama''], payload_year = Some 2005, payload_rating = Some 4,
        payload_num_ratings = Some 0\<rparr>\<rparr>,
     \<lparr>point_id = 2, point_vector = [3 / 5, 4 / 5],
      point_payload = \<lparr>payload_movie_id = Some 30, payload_title = Some ''Movie 2'',
        payload_genres = Some [''Comedy''], payload_year = Some 2005, payload_rating = Some 4,
        payload_num_ratings = Some 0\<rparr>\<rparr>]"
  by (simp add: sample_points_def movie_points_def sample_meta_def str_nat.simps)

lemma sample_candidates:
  "rank (\<lambda>h. (hit_id h, hit_score h)) (map (hit_of [1, 0]) sample_points) =
    [hit_of [1, 0] (sample_points ! 0), hit_of [1, 0] (sample_points ! 2),
     hit_of [1, 0] (sample_points ! 1)]"
  by (simp add: sample_points_eq rank_def hit_of_def dot_def ranks_before_def)

lemma sample_search_similar:
  "search_similar (collection_search sample_config sample_points) [1, 0] 2 None =
     Inr [sample_result 10 ''Movie 0'' ''Drama'' 1995 1,
          sample_result 30 ''Movie 2'' ''Comedy'' 2005 (3 / 5)]"
  by (simp add: search_similar_def collection_search_def sample_config_def build_filter_def
      sample_candidates)
    (simp add: sample_points_eq hit_of_def dot_def format_result_def sample_result_def)

section \<open>Order of the results of a search\<close>

lemma tied_index_eq:
  "tied_index = \<lparr>embedding_dim = 2, index_type = ''flat'', index = Some [[0, 1], [0, 1]],
     item_mapping = [(1, 5), (2, 3)], reverse_item_mapping = [(5, 1), (3, 2)]\<rparr>"
  by (simp add: tied_index_def create_index_def construct_index_def new_index_def flat_faiss_def
      invert_dict_def dict_set_def)

lemma flat_row_tied: "flat_row [[0, 1], [0, 1]] [1, 0] 2 = [(0, 0), (1, 0)]"
  by (simp add: flat_row_def rank_def dot_def ranks_before_def)

lemma flat_search_tied:
  "faiss_search flat_faiss [[0, 1], [0, 1]] [[1, 0]] 2 = Inr ([[0, 0]], [[0, 1]])"
  by (simp add: flat_faiss_def flat_search_def flat_row_tied)

lemma tied_search: "search flat_faiss tied_index [1, 0] 2 = Inr ([5, 3], [0, 0])"
  by (simp add: search_def tied_index_eq flat_search_tied movie_id_of_def dict_len_def
      dict_get_def)

text \<open>
  C2, as stated, fails. The index is built by \<open>create_index\<close> from two rows that score
  the same against the query, under a mapping that gives the first row the larger
  movie id: the two results of \<open>search\<close> are tied and in descending order of id.
\<close>

theorem search_tie_counterexample:
  "search flat_faiss tied_index [1, 0] 2 = Inr ([5, 3], [0, 0]) \<and> \<not> ranked (zip [5, 3] [0, 0])"
  by (simp add: tied_search ranks_before_def)

lemma ranks_before_total: "\<not> ranks_before a b \<Longrightarrow> ranks_before b a"
  by (auto simp: ranks_before_def)

lemma ranks_before_trans: "ranks_before a b \<Longrightarrow> ranks_before b c \<Longrightarrow> ranks_before a c"
  by (auto simp: ranks_before_def)

lemma ranks_before_score: "ranks_before a b \<Longrightarrow> snd b \<le> snd a"
  by (auto simp: ranks_before_def)

lemma set_rank_insert: "set (rank_insert key x ys) = insert x (set ys)"
  by (induction ys) auto

lemma set_rank: "set (rank key xs) = set xs"
  by (induction xs) (simp_all add: rank_def set_rank_insert)

lemma sorted_rank_insert:
  assumes "sorted_wrt (\<lambda>a b. ranks_before (key a) (key b)) ys"
  shows "sorted_wrt (\<lambda>a b. ranks_before (key a) (key b)) (rank_insert key x ys)"
  using assms
proof (induction ys)
  case Nil
  then show ?case by simp
next
  case (Cons y ys)
  show ?case
  proof (cases "ranks_before (key x) (key y)")
    case True
    with Cons.prems have "\<forall>z \<in> set ys. ranks_before (key x) (key z)"
      by (auto intro: ranks_before_trans)
    with True Cons.prems show ?thesis by simp
  next
    case False
    then have "ranks_before (key y) (key x)" by (rule ranks_before_total)
    with False Cons show ?thesis by (simp add: set_rank_insert)
  qed
qed

lemma sorted_rank: "sorted_wrt (\<lambda>a b. ranks_before (key a) (key b)) (rank key xs)"
proof (induction xs)
  case Nil
  then show ?case by (simp add: rank_def)
next
  case (Cons x xs)
  have "rank key (x # xs) = rank_insert key x (rank key xs)"
    by (simp add: rank_def)
  with Cons show ?case by (simp add: sorted_rank_insert)
qed

lemma sorted_ranked: "sorted_wrt ranks_before xs \<Longrightarrow> ranked xs"
  by (induction xs rule: ranked.induct) simp_all

lemma sorted_scores:
  assumes "sorted_wrt (\<lambda>a b. ranks_before (key a) (key b)) xs"
  shows "sorted_wrt (\<lambda>a b. b \<le> a) (map (\<lambda>x. snd (key x)) xs)"
proof -
  have "sorted_wrt (\<lambda>a b. snd (key b) \<le> snd (key a)) xs"
    using assms by (rule sorted_wrt_mono_rel [rotated]) (simp add: ranks_before_score)
  then show ?thesis by (simp add: sorted_wrt_map)
qed

lemma flat_row_sorted: "sorted_wrt ranks_before (flat_row rows q k)"
proof -
  have "sorted_wrt (\<lambda>a b. ranks_before (id a) (id b))
          (rank id (map (\<lambda>(i, row). (int i, dot q row)) (enumerate_from 0 rows)))"
    by (rule sorted_rank)
  then show ?thesis by (simp add: flat_row_def sorted_wrt_take)
qed

lemma flat_row_length: "length (flat_row rows q k) \<le> nat k"
  by (simp add: flat_row_def)

lemma flat_search_Inr:
  assumes "search flat_faiss self q k = Inr (ids, ss)"
  shows "\<exists>rows. index self = Some rows \<and> 1 \<le> k \<and>
           ids = map (movie_id_of (item_mapping self)) (map fst (flat_row rows q k)) \<and>
           ss = map snd (flat_row rows q k)"
proof (cases "index self")
  case None
  with assms show ?thesis by (simp add: search_def)
next
  case (Some rows)
  with assms show ?thesis
    by (cases "k < 1") (auto simp: search_def flat_faiss_def flat_search_def)
qed

lemma flat_search_returns:
  assumes "index self = Some rows" and "1 \<le> k"
  shows "search flat_faiss self q k =
           Inr (map (movie_id_of (item_mapping self)) (map fst (flat_row rows q k)),
                map snd (flat_row rows q k))"
  using assms by (simp add: search_def flat_faiss_def flat_search_def)

lemma collection_search_ranked:
  assumes "collection_search cfg points q k qf = Inr hits"
  shows "length hits \<le> nat k \<and>
         sorted_wrt (\<lambda>a b. ranks_before (hit_id a, hit_score a) (hit_id b, hit_score b)) hits"
proof -
  let ?R = "\<lambda>a b. ranks_before (hit_id a, hit_score a) (hit_id b, hit_score b)"
  let ?cands = "rank (\<lambda>h. (hit_id h, hit_score h)) (map (hit_of q) points)"
  have s: "sorted_wrt ?R ?cands" by (rule sorted_rank)
  show ?thesis
  proof (cases qf)
    case None
    with assms have "hits = take (nat k) ?cands"
      by (simp add: collection_search_def split: if_splits)
    with s show ?thesis by (simp add: sorted_wrt_take)
  next
    case (Some f)
    with assms have
      h: "hits = take (nat k)
                  (filter (\<lambda>h. matches (hit_payload h) qf) (take (overfetch cfg * nat k) ?cands))"
      by (simp add: collection_search_def split: if_splits)
    from s have "sorted_wrt ?R (take (overfetch cfg * nat k) ?cands)"
      by (rule sorted_wrt_take)
    then have "sorted_wrt ?R
                 (filter (\<lambda>h. matches (hit_payload h) qf) (take (overfetch cfg * nat k) ?cands))"
      by (rule sorted_wrt_filter)
    then have "sorted_wrt ?R hits"
      unfolding h by (rule sorted_wrt_take)
    moreover have "length hits \<le> nat k" using h by simp
    ultimately show ?thesis by simp
  qed
qed

text \<open>
  C2, amended. On the exact flat index, \<open>search\<close> returns for every built index, every
  query and every \<open>k\<close> of at least 1, and what it returns has at most \<open>k\<close> results in
  non-increasing score order. Results of equal score come in ascending order of their
  internal index, not of the movie id that \<open>item_mapping\<close> gives them. Over a
  collection searched as the specification describes, \<open>search_similar\<close> likewise
  returns at most \<open>k\<close> results in non-increasing score order, tied hits in ascending
  order of point id. For any backend, \<open>search\<close> returns the backend's score row
  unchanged with one id per internal index of the backend's row.
\<close>

theorem search_at_most_k_sorted:
  "(search flat_faiss self q k = Inr (ids, ss) \<longrightarrow>
      length ids \<le> nat k \<and> length ss = length ids \<and> sorted_wrt (\<lambda>a b. b \<le> a) ss \<and>
      (\<exists>row. ids = map (movie_id_of (item_mapping self)) row \<and> ranked (zip row ss))) \<and>
   (index self = Some rows \<and> 1 \<le> k \<longrightarrow> (\<exists>ids ss. search flat_faiss self q k = Inr (ids, ss))) \<and>
   (search_similar (collection_search cfg points) q k fs = Inr results \<longrightarrow>
      length results \<le> nat k \<and> sorted_wrt (\<lambda>a b. b \<le> a) (map result_score results) \<and>
      (\<exists>hits. results = map format_result hits \<and>
              ranked (map (\<lambda>h. (hit_id h, hit_score h)) hits))) \<and>
   (index other = Some ix \<and> faiss_search lib ix [q] k = Inr (srow # scores, row # indices) \<longrightarrow>
      search lib other q k = Inr (map (movie_id_of (item_mapping other)) row, srow))"
proof -
  have flat: "search flat_faiss self q k = Inr (ids, ss) \<longrightarrow>
      length ids \<le> nat k \<and> length ss = length ids \<and> sorted_wrt (\<lambda>a b. b \<le> a) ss \<and>
      (\<exists>row. ids = map (movie_id_of (item_mapping self)) row \<and> ranked (zip row ss))"
  proof
    assume "search flat_faiss self q k = Inr (ids, ss)"
    from flat_search_Inr [OF this] obtain stored where
      i: "ids = map (movie_id_of (item_mapping self)) (map fst (flat_row stored q k))"
      and s: "ss = map snd (flat_row stored q k)"
      by blast
    let ?hits = "flat_row stored q k"
    have srt: "sorted_wrt ranks_before ?hits" by (rule flat_row_sorted)
    have "sorted_wrt (\<lambda>a b. ranks_before (id a) (id b)) ?hits" using srt by simp
    from sorted_scores [OF this] have sc: "sorted_wrt (\<lambda>a b. b \<le> a) ss"
      by (simp add: s)
    have "zip (map fst ?hits) ss = ?hits"
      by (simp add: s zip_map_fst_snd)
    with srt have "ranked (zip (map fst ?hits) ss)"
      by (simp add: sorted_ranked)
    with i have "\<exists>row. ids = map (movie_id_of (item_mapping self)) row \<and> ranked (zip row ss)"
      by blast
    with sc show "length ids \<le> nat k \<and> length ss = length ids \<and>
      sorted_wrt (\<lambda>a b. b \<le> a) ss \<and>
      (\<exists>row. ids = map (movie_id_of (item_mapping self)) row \<and> ranked (zip row ss))"
      using i s flat_row_length [of stored q k] by simp
  qed
  have total: "index self = Some rows \<and> 1 \<le> k \<longrightarrow>
      (\<exists>ids ss. search flat_faiss self q k = Inr (ids, ss))"
    by (simp add: flat_search_returns)
  have coll: "search_similar (collection_search cfg points) q k fs = Inr results \<longrightarrow>
      length results \<le> nat k \<and> sorted_wrt (\<lambda>a b. b \<le> a) (map result_score results) \<and>
      (\<exists>hits. results = map format_result hits \<and>
              ranked (map (\<lambda>h. (hit_id h, hit_score h)) hits))"
  proof
    assume "search_similar (collection_search cfg points) q k fs = Inr results"
    then obtain hits where
      c: "collection_search cfg points q k (build_filter fs) = Inr hits"
      and r: "results = map format_result hits"
      by (auto simp: search_similar_def split: sum.splits)
    from collection_search_ranked [OF c]
    have len: "length hits \<le> nat k"
      and srt: "sorted_wrt (\<lambda>a b. ranks_before (hit_id a, hit_score a) (hit_id b, hit_score b))
                  hits"
      by simp_all
    from sorted_scores [of "\<lambda>h. (hit_id h, hit_score h)", OF srt]
    have "sorted_wrt (\<lambda>a b. b \<le> a) (map hit_score hits)" by simp
    moreover have "map result_score results = map hit_score hits"
      by (simp add: r format_result_def comp_def)
    ultimately have sc: "sorted_wrt (\<lambda>a b. b \<le> a) (map result_score results)"
      by simp
    have "sorted_wrt ranks_before (map (\<lambda>h. (hit_id h, hit_score h)) hits)"
      using srt by (simp add: sorted_wrt_map)
    then have "ranked (map (\<lambda>h. (hit_id h, hit_score h)) hits)"
      by (rule sorted_ranked)
    with r have "\<exists>hits. results = map format_result hits \<and>
              ranked (map (\<lambda>h. (hit_id h, hit_score h)) hits)"
      by blast
    with sc len r show "length results \<le> nat k \<and>
      sorted_wrt (\<lambda>a b. b \<le> a) (map result_score results) \<and>
      (\<exists>hits. results = map format_result hits \<and>
              ranked (map (\<lambda>h. (hit_id h, hit_score h)) hits))"
      by simp
  qed
  have pass: "index other = Some ix \<and>
      faiss_search lib ix [q] k = Inr (srow # scores, row # indices) \<longrightarrow>
      search lib other q k = Inr (map (movie_id_of (item_mapping other)) row, srow)"
    by (simp add: search_built)
  from flat total coll pass show ?thesis by (intro conjI)
qed

theorem search_at_most_k_sorted_witness:
  "search flat_faiss sample_index [1, 0] 3 = Inr ([10, - 1, 2], [1, 1, 0]) \<and>
   length [10, - 1, 2 :: int] \<le> nat 3 \<and>
   sorted_wrt (\<lambda>a b. b \<le> a) [1, 1, 0 :: real] \<and>
   index sample_index = Some [[1, 0], [0, 1], [1, 1]] \<and>
   search_similar (collection_search sample_config sample_points) [1, 0] 2 None =
     Inr [sample_result 10 ''Movie 0'' ''Drama'' 1995 1,
          sample_result 30 ''Movie 2'' ''Comedy'' 2005 (3 / 5)] \<and>
   sorted_wrt (\<lambda>a b. b \<le> a)
     (map result_score [sample_result 10 ''Movie 0'' ''Drama'' 1995 1,
                        sample_result 30 ''Movie 2'' ''Comedy'' 2005 (3 / 5)])"
proof -
  have built: "index sample_index = Some [[1, 0], [0, 1], [1, 1]]"
    by (simp add: sample_index_def)
  note t = search_at_most_k_sorted [of sample_index "[1, 0]" 3 "[10, - 1, 2]" "[1, 1, 0]"
      "[[1, 0], [0, 1], [1, 1]]" sample_config sample_points None "[]"
      sample_index "[[1, 0], [0, 1], [1, 1]]" flat_faiss "[1, 1, 0]" "[]" "[0, 2, 1]" "[]"]
  from t [THEN conjunct1] sample_search
  have a: "length [10, - 1, 2 :: int] \<le> nat 3 \<and> sorted_wrt (\<lambda>a b. b \<le> a) [1, 1, 0 :: real]"
    by simp
  note u = search_at_most_k_sorted [of sample_index "[1, 0]" 2 "[]" "[]"
      "[[1, 0], [0, 1], [1, 1]]" sample_config sample_points None
      "[sample_result 10 ''Movie 0'' ''Drama'' 1995 1,
        sample_result 30 ''Movie 2'' ''Comedy'' 2005 (3 / 5)]"
      sample_index "[[1, 0], [0, 1], [1, 1]]" flat_faiss "[1, 1, 0]" "[]" "[0, 2, 1]" "[]"]
  from u [THEN conjunct2, THEN conjunct2, THEN conjunct1, rule_format, OF sample_search_similar]
  have b: "sorted_wrt (\<lambda>a b. b \<le> a)
     (map result_score [sample_result 10 ''Movie 0'' ''Drama'' 1995 1,
                        sample_result 30 ''Movie 2'' ''Comedy'' 2005 (3 / 5)])"
    by (rule conjunct2 [THEN conjunct1])
  from a b built show ?thesis
    using sample_search sample_search_similar by simp
qed

section \<open>Building an index\<close>

lemma built_index_eq:
  "built_index = \<lparr>embedding_dim = 2, index_type = ''flat'', index = Some [[1, 0], [0, 1]],
     item_mapping = [(1, 10), (2, 20)], reverse_item_mapping = [(10, 1), (20, 2)]\<rparr>"
  by (simp add: built_index_def create_index_def construct_index_def new_index_def flat_faiss_def
      invert_dict_def dict_set_def)

lemma item_mapping_construct:
  "item_mapping (snd (construct_index lib embeddings self)) = item_mapping self \<and>
   reverse_item_mapping (snd (construct_index lib embeddings self)) = reverse_item_mapping self"
  by (simp add: construct_index_def Let_def split: sum.splits)

lemma create_index_mappings:
  "item_mapping (snd (create_index lib embeddings mapping self)) = mapping \<and>
   reverse_item_mapping (snd (create_index lib embeddings mapping self)) = invert_dict mapping"
proof -
  let ?self1 = "self\<lparr>item_mapping := mapping, reverse_item_mapping := invert_dict mapping\<rparr>"
  obtain r self2 where c: "construct_index lib embeddings ?self1 = (r, self2)"
    by (cases "construct_index lib embeddings ?self1")
  with item_mapping_construct [of lib embeddings ?self1]
  have "item_mapping self2 = mapping" "reverse_item_mapping self2 = invert_dict mapping"
    by simp_all
  with c show ?thesis
    by (simp add: create_index_def split: sum.splits option.splits)
qed

lemma create_index_outcome_fresh:
  assumes "index_type self = ''flat'' \<or> index_type self = ''ivf'' \<or> index_type self = ''hnsw''"
  shows "fst (create_index lib embeddings mapping (self\<lparr>index := old\<rparr>)) =
         fst (create_index lib embeddings mapping (self\<lparr>index := None\<rparr>))"
  using assms
  by (auto simp: create_index_def construct_index_def Let_def split: sum.splits)

lemma create_index_fresh:
  assumes "index_type self = ''flat'' \<or> index_type self = ''ivf'' \<or> index_type self = ''hnsw''"
    and "fst (create_index lib embeddings mapping (self\<lparr>index := old\<rparr>)) = Inr ()"
  shows "create_index lib embeddings mapping (self\<lparr>index := old\<rparr>) =
         create_index lib embeddings mapping (self\<lparr>index := None\<rparr>)"
  using assms
  by (auto simp: create_index_def construct_index_def Let_def split: sum.splits)

lemma create_index_constructor_raises:
  assumes "index_type self = ''ivf''"
    and "IndexFlatIP lib (embedding_dim self) = Inr quantizer"
    and "IndexIVFPQ lib quantizer (embedding_dim self)
           (min 100 (int (length embeddings) div 10)) 8 8 = Inl e"
  shows "create_index lib embeddings mapping self =
           (Inl e, self\<lparr>item_mapping := mapping, reverse_item_mapping := invert_dict mapping\<rparr>)"
  using assms by (simp add: create_index_def construct_index_def)

lemma construct_index_raises:
  assumes "construct_index lib embeddings self = (Inl e, self2)"
  shows "(\<exists>d. IndexFlatIP lib d = Inl e) \<or>
         (\<exists>quantizer d nlist m nbits. IndexIVFPQ lib quantizer d nlist m nbits = Inl e) \<or>
         (\<exists>d m efc efs. IndexHNSWFlat lib d m efc efs = Inl e) \<or>
         (\<exists>ix. faiss_train lib ix embeddings = Inl e)"
proof -
  consider "index_type self = ''flat''" | "index_type self = ''ivf''"
    | "index_type self = ''hnsw''"
    | "index_type self \<noteq> ''flat''" "index_type self \<noteq> ''ivf''" "index_type self \<noteq> ''hnsw''"
    by blast
  then show ?thesis
  proof cases
    case 1
    with assms have "IndexFlatIP lib (embedding_dim self) = Inl e"
      by (simp add: construct_index_def split: sum.splits)
    then show ?thesis by blast
  next
    case 2
    show ?thesis
    proof (cases "IndexFlatIP lib (embedding_dim self)")
      case (Inl e')
      with 2 assms have "e' = e" by (simp add: construct_index_def)
      with Inl show ?thesis by blast
    next
      case (Inr quantizer)
      show ?thesis
      proof (cases "IndexIVFPQ lib quantizer (embedding_dim self)
                      (min 100 (int (length embeddings) div 10)) 8 8")
        case (Inl e')
        with 2 Inr assms have "e' = e" by (simp add: construct_index_def)
        with Inl show ?thesis by blast
      next
        case ivf: (Inr ix)
        with 2 Inr assms have "faiss_train lib ix embeddings = Inl e"
          by (simp add: construct_index_def split: sum.splits)
        then show ?thesis by blast
      qed
    qed
  next
    case 3
    with assms have "IndexHNSWFlat lib (embedding_dim self) 32 200 100 = Inl e"
      by (simp add: construct_index_def split: sum.splits)
    then show ?thesis by blast
  next
    case 4
    with assms show ?thesis by (simp add: construct_index_def)
  qed
qed

lemma construct_index_no_index:
  assumes "construct_index lib embeddings self = (Inr u, self2)" and "index self2 = None"
  shows "index self = None"
  using assms by (auto simp: construct_index_def Let_def split: if_splits sum.splits)

lemma create_index_raises:
  assumes "fst (create_index lib embeddings mapping self) = Inl e"
  shows "(e = AttributeError \<and> index self = None) \<or>
         (\<exists>d. IndexFlatIP lib d = Inl e) \<or>
         (\<exists>quantizer d nlist m nbits. IndexIVFPQ lib quantizer d nlist m nbits = Inl e) \<or>
         (\<exists>d m efc efs. IndexHNSWFlat lib d m efc efs = Inl e) \<or>
         (\<exists>ix. faiss_train lib ix embeddings = Inl e) \<or>
         (\<exists>ix. faiss_add lib ix embeddings = Inl e)"
proof -
  let ?self1 = "self\<lparr>item_mapping := mapping, reverse_item_mapping := invert_dict mapping\<rparr>"
  obtain r self2 where c: "construct_index lib embeddings ?self1 = (r, self2)"
    by (cases "construct_index lib embeddings ?self1")
  show ?thesis
  proof (cases r)
    case (Inl e')
    with c assms have "e' = e" by (simp add: create_index_def)
    with c Inl have "construct_index lib embeddings ?self1 = (Inl e, self2)" by simp
    from construct_index_raises [OF this] show ?thesis by blast
  next
    case (Inr u)
    show ?thesis
    proof (cases "index self2")
      case None
      with c Inr assms have e: "e = AttributeError" by (simp add: create_index_def)
      from c Inr None have "index ?self1 = None"
        by (auto dest: construct_index_no_index)
      with e show ?thesis by simp
    next
      case (Some ix)
      with c Inr assms have "faiss_add lib ix embeddings = Inl e"
        by (simp add: create_index_def split: sum.splits)
      then show ?thesis by blast
    qed
  qed
qed

lemma create_index_empty_flat:
  "create_index flat_faiss [] [] built_index =
     (Inr (), \<lparr>embedding_dim = 2, index_type = ''flat'', index = Some [],
               item_mapping = [], reverse_item_mapping = []\<rparr>)"
  by (simp add: built_index_eq create_index_def construct_index_def flat_faiss_def
      invert_dict_def)

lemma create_index_empty_strict:
  "create_index strict_faiss [] [] built_index =
     (Inl (LibraryError ''empty array''),
      \<lparr>embedding_dim = 2, index_type = ''flat'', index = Some [],
       item_mapping = [], reverse_item_mapping = []\<rparr>)"
  by (simp add: built_index_eq create_index_def construct_index_def flat_faiss_def
      strict_faiss_def invert_dict_def)

lemma flat_row_built: "flat_row [[1, 0], [0, 1]] [1, 0] 1 = [(0, 1)]"
  by (simp add: flat_row_def rank_def dot_def ranks_before_def)

lemma built_search: "search flat_faiss built_index [1, 0] 1 = Inr ([10], [1])"
  by (simp add: search_def built_index_eq flat_faiss_def flat_search_def flat_row_built
      movie_id_of_def dict_len_def dict_get_def)

lemma emptied_search:
  "search flat_faiss \<lparr>embedding_dim = 2, index_type = ''flat'', index = Some [],
       item_mapping = [], reverse_item_mapping = []\<rparr> [1, 0] 1 = Inr ([], [])"
  by (simp add: search_def flat_faiss_def flat_search_def flat_row_def rank_def)

text \<open>
  C8, as stated, fails. On an index built from two rows, \<open>create_index\<close> with no rows
  and an empty mapping returns normally on a backend whose \<open>add\<close> accepts an empty
  array, and the same search that found movie 10 before the call finds nothing after
  it. On a backend whose \<open>add\<close> refuses an empty array the exception is the
  backend's own, and the object has lost its index and its mapping all the same.
\<close>

theorem create_index_empty_counterexample:
  "search flat_faiss built_index [1, 0] 1 = Inr ([10], [1]) \<and>
   fst (create_index flat_faiss [] [] built_index) = Inr () \<and>
   search flat_faiss (snd (create_index flat_faiss [] [] built_index)) [1, 0] 1 = Inr ([], []) \<and>
   fst (create_index strict_faiss [] [] built_index) = Inl (LibraryError ''empty array'') \<and>
   snd (create_index strict_faiss [] [] built_index) \<noteq> built_index"
proof -
  have "snd (create_index strict_faiss [] [] built_index) \<noteq> built_index"
    by (simp add: create_index_empty_strict) (simp add: built_index_eq)
  then show ?thesis
    by (simp add: built_search create_index_empty_flat create_index_empty_strict emptied_search)
qed

lemma create_index_narrow:
  "create_index narrow_faiss [] [] ivf_index =
     (Inl (LibraryError ''d % M != 0''),
      ivf_index\<lparr>item_mapping := [], reverse_item_mapping := []\<rparr>)"
proof -
  have t: "index_type ivf_index = ''ivf''" by (simp add: ivf_index_def)
  have q: "IndexFlatIP narrow_faiss (embedding_dim ivf_index) = Inr []"
    by (simp add: narrow_faiss_def flat_faiss_def)
  have c: "IndexIVFPQ narrow_faiss [] (embedding_dim ivf_index)
             (min 100 (int (length ([] :: real list list)) div 10)) 8 8 =
           Inl (LibraryError ''d % M != 0'')"
    by (simp add: narrow_faiss_def flat_faiss_def ivf_index_def)
  from create_index_constructor_raises [OF t q c, of "[]"] show ?thesis
    by (simp add: invert_dict_def)
qed

text \<open>
  C8, amended. \<open>create_index\<close> has no check for an empty corpus: when it raises, the
  exception is one that a faiss constructor, \<open>train\<close> or \<open>add\<close> raised, or the
  \<open>AttributeError\<close> of an object that holds no index. Whatever the embeddings, it first
  replaces \<open>item_mapping\<close> and \<open>reverse_item_mapping\<close> by the given mapping and its
  inverse. For the three known index types the outcome does not depend on the index
  held before the call, and whenever the method returns neither does the resulting
  object: the held index was replaced by a newly constructed one before any row was
  added. When the constructor of an \<open>ivf\<close> index raises, the object keeps the index it
  held, under the new mapping.
\<close>

theorem create_index_discards_prior:
  "item_mapping (snd (create_index lib embeddings mapping self)) = mapping \<and>
   reverse_item_mapping (snd (create_index lib embeddings mapping self)) = invert_dict mapping \<and>
   (index_type self = ''flat'' \<or> index_type self = ''ivf'' \<or> index_type self = ''hnsw'' \<longrightarrow>
      fst (create_index lib embeddings mapping (self\<lparr>index := old\<rparr>)) =
      fst (create_index lib embeddings mapping (self\<lparr>index := None\<rparr>)) \<and>
      (fst (create_index lib embeddings mapping (self\<lparr>index := old\<rparr>)) = Inr () \<longrightarrow>
         create_index lib embeddings mapping (self\<lparr>index := old\<rparr>) =
         create_index lib embeddings mapping (self\<lparr>index := None\<rparr>))) \<and>
   (index_type self = ''ivf'' \<and> IndexFlatIP lib (embedding_dim self) = Inr quantizer \<and>
    IndexIVFPQ lib quantizer (embedding_dim self)
      (min 100 (int (length embeddings) div 10)) 8 8 = Inl e' \<longrightarrow>
      create_index lib embeddings mapping self =
        (Inl e', self\<lparr>item_mapping := mapping, reverse_item_mapping := invert_dict mapping\<rparr>)) \<and>
   (fst (create_index lib embeddings mapping self) = Inl e \<longrightarrow>
      (e = AttributeError \<and> index self = None) \<or>
      (\<exists>d. IndexFlatIP lib d = Inl e) \<or>
      (\<exists>quantizer d nlist m nbits. IndexIVFPQ lib quantizer d nlist m nbits = Inl e) \<or>
      (\<exists>d m efc efs. IndexHNSWFlat lib d m efc efs = Inl e) \<or>
      (\<exists>ix. faiss_train lib ix embeddings = Inl e) \<or>
      (\<exists>ix. faiss_add lib ix embeddings = Inl e))"
  using create_index_mappings [of lib embeddings mapping self]
    create_index_outcome_fresh [of self lib embeddings mapping old]
    create_index_fresh [of self lib embeddings mapping old]
    create_index_constructor_raises [of self lib quantizer embeddings e' mapping]
    create_index_raises [of lib embeddings mapping self e]
  by blast

theorem create_index_discards_prior_witness:
  "index_type built_index = ''flat'' \<and>
   fst (create_index flat_faiss [] [] (built_index\<lparr>index := Some [[1, 0]]\<rparr>)) = Inr () \<and>
   create_index flat_faiss [] [] (built_index\<lparr>index := Some [[1, 0]]\<rparr>) =
     create_index flat_faiss [] [] (built_index\<lparr>index := None\<rparr>) \<and>
   item_mapping (snd (create_index flat_faiss [] [] built_index)) = [] \<and>
   index_type ivf_index = ''ivf'' \<and>
   create_index narrow_faiss [] [] ivf_index =
     (Inl (LibraryError ''d % M != 0''),
      ivf_index\<lparr>item_mapping := [], reverse_item_mapping := []\<rparr>) \<and>
   index (snd (create_index narrow_faiss [] [] ivf_index)) = Some [[1, 0, 0], [0, 1, 0]] \<and>
   fst (create_index strict_faiss [] [] built_index) = Inl (LibraryError ''empty array'') \<and>
   (\<exists>ix. faiss_add strict_faiss ix [] = Inl (LibraryError ''empty array''))"
proof -
  have flat: "index_type built_index = ''flat''"
    by (simp add: built_index_eq)
  have ret: "fst (create_index flat_faiss [] [] (built_index\<lparr>index := Some [[1, 0]]\<rparr>)) = Inr ()"
    by (simp add: built_index_eq create_index_def construct_index_def flat_faiss_def)
  from create_index_discards_prior [of flat_faiss "[]" "[]" built_index "Some [[1, 0]]"] flat ret
  have same: "create_index flat_faiss [] [] (built_index\<lparr>index := Some [[1, 0]]\<rparr>) =
     create_index flat_faiss [] [] (built_index\<lparr>index := None\<rparr>)"
    and maps: "item_mapping (snd (create_index flat_faiss [] [] built_index)) = []"
    by simp_all
  have ivf: "index_type ivf_index = ''ivf''" by (simp add: ivf_index_def)
  have kept: "index (snd (create_index narrow_faiss [] [] ivf_index)) =
                Some [[1, 0, 0], [0, 1, 0]]"
    by (simp add: create_index_narrow) (simp add: ivf_index_def)
  have raised: "fst (create_index strict_faiss [] [] built_index) =
                  Inl (LibraryError ''empty array'')"
    by (simp add: create_index_empty_strict)
  have no_ctor: "\<not> (\<exists>d. IndexFlatIP strict_faiss d = Inl (LibraryError ''empty array''))"
    "\<not> (\<exists>quantizer d nlist m nbits.
          IndexIVFPQ strict_faiss quantizer d nlist m nbits = Inl (LibraryError ''empty array''))"
    "\<not> (\<exists>d m efc efs. IndexHNSWFlat strict_faiss d m efc efs = Inl (LibraryError ''empty array''))"
    "\<not> (\<exists>ix. faiss_train strict_faiss ix [] = Inl (LibraryError ''empty array''))"
    by (simp_all add: strict_faiss_def flat_faiss_def)
  from create_index_discards_prior [of strict_faiss "[]" "[]" built_index None "[]"
      "LibraryError ''empty array''" "LibraryError ''empty array''"] raised no_ctor
  have add: "\<exists>ix. faiss_add strict_faiss ix [] = Inl (LibraryError ''empty array'')"
    by simp
  from flat ret same maps ivf kept raised add show ?thesis
    using create_index_narrow by simp
qed

section \<open>Recommendations\<close>

lemma enrich_movie_ids:
  "map result_movie_id (fst (enrich get_md db recs)) = map result_movie_id recs"
proof (induction recs arbitrary: db)
  case Nil
  then show ?case by simp
next
  case (Cons r recs)
  obtain md db1 where g: "get_md db (result_movie_id r) = (md, db1)"
    by (cases "get_md db (result_movie_id r)")
  obtain recs' db2 where e: "enrich get_md db1 recs = (recs', db2)"
    by (cases "enrich get_md db1 recs")
  from Cons.IH [of db1] e have "map result_movie_id recs' = map result_movie_id recs"
    by simp
  with g e show ?case
    by (simp add: Let_def split: option.splits)
qed

lemma py_take_subset: "set (py_take k xs) \<subseteq> set xs"
  by (auto simp: py_take_def dest: in_set_takeD)

lemma recommend_Inr:
  assumes "recommend svc db request = (Inr response, db')"
  shows "\<exists>user_sequence db1 user_embedding similar_movies.
           get_user_sequence (movie_db svc) db (request_user_id request) = (user_sequence, db1) \<and>
           user_sequence \<noteq> [] \<and>
           get_user_embedding (model svc) user_sequence = Some user_embedding \<and>
           search_similar (qdrant_search svc) user_embedding (request_k request * 2)
              (request_filters request) = Inr similar_movies \<and>
           response_recommendations response =
             fst (enrich (get_movie_metadata svc) db1
                    (py_take (request_k request)
                       (filter (not_seen user_sequence) similar_movies)))"
proof -
  obtain user_sequence db1 where
    g: "get_user_sequence (movie_db svc) db (request_user_id request) = (user_sequence, db1)"
    by (cases "get_user_sequence (movie_db svc) db (request_user_id request)")
  from assms g have ne: "user_sequence \<noteq> []"
    by (auto simp: recommend_def split: if_splits)
  from assms g ne obtain user_embedding where
    u: "get_user_embedding (model svc) user_sequence = Some user_embedding"
    by (cases "get_user_embedding (model svc) user_sequence") (auto simp: recommend_def)
  from assms g ne u obtain similar_movies where
    s: "search_similar (qdrant_search svc) user_embedding (request_k request * 2)
          (request_filters request) = Inr similar_movies"
    by (cases "search_similar (qdrant_search svc) user_embedding (request_k request * 2)
          (request_filters request)") (auto simp: recommend_def)
  obtain recs db2 where
    e: "enrich (get_movie_metadata svc) db1
          (py_take (request_k request) (filter (not_seen user_sequence) similar_movies))
        = (recs, db2)"
    by (cases "enrich (get_movie_metadata svc) db1
          (py_take (request_k request) (filter (not_seen user_sequence) similar_movies))")
  from assms g ne u s e have "response_recommendations response = recs"
    by (auto simp: recommend_def)
  with g ne u s e show ?thesis by simp
qed

lemma recommend_excludes_sequence:
  assumes "recommend svc db request = (Inr response, db')"
  shows "(\<forall>rec \<in> set (response_recommendations response).
            \<forall>m. result_movie_id rec = Some m \<longrightarrow>
              m \<notin> set (fst (get_user_sequence (movie_db svc) db (request_user_id request)))) \<and>
         (\<exists>user_embedding similar_movies.
            search_similar (qdrant_search svc) user_embedding (request_k request * 2)
              (request_filters request) = Inr similar_movies \<and>
            map result_movie_id (response_recommendations response) =
              map result_movie_id
                (py_take (request_k request)
                   (filter (not_seen
                      (fst (get_user_sequence (movie_db svc) db (request_user_id request))))
                    similar_movies)))"
proof -
  from recommend_Inr [OF assms] obtain user_sequence db1 user_embedding similar_movies where
    g: "get_user_sequence (movie_db svc) db (request_user_id request) = (user_sequence, db1)"
    and s: "search_similar (qdrant_search svc) user_embedding (request_k request * 2)
              (request_filters request) = Inr similar_movies"
    and r: "response_recommendations response =
             fst (enrich (get_movie_metadata svc) db1
                    (py_take (request_k request)
                       (filter (not_seen user_sequence) similar_movies)))"
    by blast
  let ?kept = "py_take (request_k request) (filter (not_seen user_sequence) similar_movies)"
  from r have ids: "map result_movie_id (response_recommendations response) =
                    map result_movie_id ?kept"
    by (simp add: enrich_movie_ids)
  have kept: "\<forall>c \<in> set ?kept. not_seen user_sequence c"
    using py_take_subset [of "request_k request" "filter (not_seen user_sequence) similar_movies"]
    by auto
  have "\<forall>rec \<in> set (response_recommendations response).
          \<forall>m. result_movie_id rec = Some m \<longrightarrow> m \<notin> set user_sequence"
  proof (intro ballI allI impI)
    fix rec m
    assume a: "rec \<in> set (response_recommendations response)" and b: "result_movie_id rec = Some m"
    from a have "result_movie_id rec \<in> set (map result_movie_id (response_recommendations response))"
      by simp
    with ids have "result_movie_id rec \<in> result_movie_id ` set ?kept" by simp
    then obtain c where c: "c \<in> set ?kept" and eq: "result_movie_id c = result_movie_id rec"
      by auto
    from kept c have "not_seen user_sequence c" by simp
    with eq b show "m \<notin> set user_sequence" by (simp add: not_seen_def)
  qed
  with g s ids show ?thesis by auto
qed

lemma fast_recommendation_ids:
  "map fast_movie_id (fast_recommendations_of client_scroll movie_ids scores) =
     filter (\<lambda>m. get_movie_by_id client_scroll m \<noteq> None) (map fst (zip movie_ids scores))"
proof -
  have "map fast_movie_id
          (concat (map (\<lambda>(movie_id, score).
                  (case get_movie_by_id client_scroll movie_id of
                     None \<Rightarrow> []
                   | Some movie_info \<Rightarrow>
                       [\<lparr>fast_movie_id = movie_id,
                         fast_title = info_title movie_info,
                         fast_genres = info_genres movie_info,
                         fast_year = info_year movie_info,
                         fast_score = score\<rparr>])) zs)) =
        filter (\<lambda>m. get_movie_by_id client_scroll m \<noteq> None) (map fst zs)" for zs
    by (induction zs) (auto split: option.splits)
  then show ?thesis by (simp add: fast_recommendations_of_def)
qed

lemma recommend_fast_Inr:
  assumes "recommend_fast gen forward lib faiss_index client_scroll cache request =
             (Inr response, cache')"
  shows "\<exists>user_embedding movie_ids scores.
           search lib faiss_index user_embedding (api_k request) = Inr (movie_ids, scores) \<and>
           map fast_movie_id (fast_recommendations response) =
             filter (\<lambda>m. get_movie_by_id client_scroll m \<noteq> None)
               (map fst (zip movie_ids scores))"
proof -
  obtain r cache1 where
    g: "api_get_user_embedding gen forward cache (api_user_id request) = (r, cache1)"
    by (cases "api_get_user_embedding gen forward cache (api_user_id request)")
  from assms g obtain user_embedding where r: "r = Inr user_embedding"
    by (cases r) (auto simp: recommend_fast_def)
  from assms g r obtain movie_ids scores where
    s: "search lib faiss_index user_embedding (api_k request) = Inr (movie_ids, scores)"
    by (cases "search lib faiss_index user_embedding (api_k request)")
       (auto simp: recommend_fast_def)
  from assms g r s have "fast_recommendations response =
      fast_recommendations_of client_scroll movie_ids scores"
    by (auto simp: recommend_fast_def)
  with s show ?thesis by (auto simp: fast_recommendation_ids)
qed

lemma get_user_sequence_cached:
  assumes "call_raises ops (RedisGet user_id) = None"
    and "call_raises ops (JsonLoads user_id) = None"
    and "user_sequence_cache db user_id = Some cached"
  shows "get_user_sequence ops db user_id = (cached, db)"
  using assms by (simp add: get_user_sequence_def)

lemma sample_sequence:
  "get_user_sequence sample_mongo_ops sample_db 7 = ([10], sample_db_cached)"
  by (simp add: get_user_sequence_def ratings_sequence_def sample_mongo_ops_def sample_db_def
      sample_db_cached_def)

lemma sample_embedding: "get_user_embedding (Some (\<lambda>s. Inr [1, 0])) [10] = Some [1, 0]"
  by (simp add: get_user_embedding_def)

lemma sample_recommend:
  "recommend sample_services sample_db (sample_request 7) =
     (Inr \<lparr>response_user_id = 7,
           response_recommendations = [sample_result 30 ''Movie 2'' ''Comedy'' 2005 (3 / 5)],
           response_method = ''vectorial'', response_count = 1,
           response_user_history_size = 1\<rparr>,
      sample_db_cached)"
  by (simp add: recommend_def sample_services_def sample_request_def sample_sequence
      sample_embedding sample_search_similar not_seen_def sample_result_def py_take_def)

lemma flat_row_second_built: "flat_row [[1, 0], [0, 1]] [0, 1] 1 = [(1, 1)]"
  by (simp add: flat_row_def rank_def dot_def ranks_before_def)

lemma built_search_second: "search flat_faiss built_index [0, 1] 1 = Inr ([20], [1])"
  by (simp add: search_def built_index_eq flat_faiss_def flat_search_def flat_row_second_built
      movie_id_of_def dict_len_def dict_get_def)

lemma sample_movie_by_id:
  "get_movie_by_id (points_scroll sample_points) 20 =
     Some \<lparr>info_movie_id = Some 20, info_title = Some ''Movie 1'', info_genres = [''Drama''],
           info_year = Some 2005, info_rating = Some 4, info_vector = [0, 1]\<rparr>"
  by (simp add: get_movie_by_id_def points_scroll_def sample_points_eq)

lemma sample_recommend_fast:
  "recommend_fast fast_gen sample_forward flat_faiss built_index (points_scroll sample_points)
       Map.empty sample_api_request =
     (Inr \<lparr>fast_user_id = 7,
           fast_recommendations =
             [\<lparr>fast_movie_id = 20, fast_title = Some ''Movie 1'', fast_genres = [''Drama''],
               fast_year = Some 2005, fast_score = 1\<rparr>],
           fast_method = ''faiss_fast''\<rparr>,
      [7 \<mapsto> [0, 1]])"
  by (simp add: recommend_fast_def api_get_user_embedding_def sample_forward_def normalize_def
      l2norm_def sample_api_request_def built_search_second fast_recommendations_of_def
      sample_movie_by_id)

lemma stale_sequence: "get_user_sequence sample_mongo_ops stale_db 7 = ([10], stale_db)"
  by (simp add: get_user_sequence_def sample_mongo_ops_def stale_db_def)

lemma stale_recommend:
  "recommend sample_services stale_db (sample_request 7) =
     (Inr \<lparr>response_user_id = 7,
           response_recommendations = [sample_result 30 ''Movie 2'' ''Comedy'' 2005 (3 / 5)],
           response_method = ''vectorial'', response_count = 1,
           response_user_history_size = 1\<rparr>,
      stale_db)"
  by (simp add: recommend_def sample_services_def sample_request_def stale_sequence
      sample_embedding sample_search_similar not_seen_def sample_result_def py_take_def)

text \<open>
  C1, as stated, fails. \<open>recommend_fast\<close> recommends to user 7 the movie 20, which is
  in the sequence generated for that user: it removes nothing from what FAISS returns.
  And \<open>recommend\<close> excludes the sequence that \<open>get_user_sequence\<close> returns, which is the
  copy cached in Redis when there is one: with a cached copy \<open>[10]\<close> and ratings of the
  movies 10 and 30 in MongoDB, it recommends movie 30.
\<close>

theorem recommend_seen_counterexample:
  "fst (recommend_fast fast_gen sample_forward flat_faiss built_index
          (points_scroll sample_points) Map.empty sample_api_request) =
     Inr \<lparr>fast_user_id = 7,
          fast_recommendations =
            [\<lparr>fast_movie_id = 20, fast_title = Some ''Movie 1'', fast_genres = [''Drama''],
              fast_year = Some 2005, fast_score = 1\<rparr>],
          fast_method = ''faiss_fast''\<rparr> \<and>
   20 \<in> set (fast_gen 7) \<and>
   find_ratings sample_mongo_ops (mongo stale_db) 7 = Inr [10, 30] \<and>
   fst (recommend sample_services stale_db (sample_request 7)) =
     Inr \<lparr>response_user_id = 7,
          response_recommendations = [sample_result 30 ''Movie 2'' ''Comedy'' 2005 (3 / 5)],
          response_method = ''vectorial'', response_count = 1,
          response_user_history_size = 1\<rparr>"
  by (simp add: sample_recommend_fast stale_recommend fast_gen_def)
    (simp add: sample_mongo_ops_def stale_db_def)

text \<open>
  C1, amended. Whenever \<open>recommend\<close> of api\_ml32m\_vectorial.py returns a response,
  its recommendations carry the movie ids of the first \<open>k\<close> candidates of the search
  that are left once every candidate whose id occurs in the sequence returned by
  \<open>get_user_sequence\<close> is removed, so no recommended id occurs in that sequence; when
  no call raises and Redis holds a sequence for the user, that sequence is the cached
  one, whatever MongoDB holds. \<open>recommend_fast\<close> of api.py excludes nothing: its
  recommendations are the movie ids that FAISS returned and \<open>get_movie_by_id\<close> found.
\<close>

theorem recommend_excludes_history:
  "(recommend svc db request = (Inr response, db') \<longrightarrow>
      (\<forall>rec \<in> set (response_recommendations response).
          \<forall>m. result_movie_id rec = Some m \<longrightarrow>
            m \<notin> set (fst (get_user_sequence (movie_db svc) db (request_user_id request)))) \<and>
      (\<exists>user_embedding similar_movies.
          search_similar (qdrant_search svc) user_embedding (request_k request * 2)
            (request_filters request) = Inr similar_movies \<and>
          map result_movie_id (response_recommendations response) =
            map result_movie_id
              (py_take (request_k request)
                 (filter (not_seen
                    (fst (get_user_sequence (movie_db svc) db (request_user_id request))))
                  similar_movies)))) \<and>
   (call_raises (movie_db svc) (RedisGet (request_user_id request)) = None \<and>
    call_raises (movie_db svc) (JsonLoads (request_user_id request)) = None \<and>
    user_sequence_cache db (request_user_id request) = Some cached \<longrightarrow>
      get_user_sequence (movie_db svc) db (request_user_id request) = (cached, db)) \<and>
   (recommend_fast gen forward lib faiss_index client_scroll cache fast_request =
      (Inr fast, cache') \<longrightarrow>
      (\<exists>user_embedding movie_ids scores.
          search lib faiss_index user_embedding (api_k fast_request) = Inr (movie_ids, scores) \<and>
          map fast_movie_id (fast_recommendations fast) =
            filter (\<lambda>m. get_movie_by_id client_scroll m \<noteq> None)
              (map fst (zip movie_ids scores))))"
  using recommend_excludes_sequence [of svc db request response db']
    get_user_sequence_cached [of "movie_db svc" "request_user_id request" db cached]
    recommend_fast_Inr [of gen forward lib faiss_index client_scroll cache fast_request fast cache']
  by blast

theorem recommend_excludes_history_witness:
  "recommend sample_services sample_db (sample_request 7) =
     (Inr \<lparr>response_user_id = 7,
           response_recommendations = [sample_result 30 ''Movie 2'' ''Comedy'' 2005 (3 / 5)],
           response_method = ''vectorial'', response_count = 1,
           response_user_history_size = 1\<rparr>,
      sample_db_cached) \<and>
   fst (get_user_sequence sample_mongo_ops sample_db 7) = [10] \<and>
   result_movie_id (sample_result 30 ''Movie 2'' ''Comedy'' 2005 (3 / 5)) = Some 30 \<and>
   (30 :: int) \<notin> set [10] \<and>
   user_sequence_cache stale_db 7 = Some [10] \<and>
   get_user_sequence sample_mongo_ops stale_db 7 = ([10], stale_db) \<and>
   fst (recommend_fast fast_gen sample_forward flat_faiss built_index
          (points_scroll sample_points) Map.empty sample_api_request) =
     Inr \<lparr>fast_user_id = 7,
          fast_recommendations =
            [\<lparr>fast_movie_id = 20, fast_title = Some ''Movie 1'', fast_genres = [''Drama''],
              fast_year = Some 2005, fast_score = 1\<rparr>],
          fast_method = ''faiss_fast''\<rparr> \<and>
   search flat_faiss built_index [0, 1] 1 = Inr ([20], [1])"
proof -
  note t = recommend_excludes_history [of sample_services sample_db "sample_request 7"
      "\<lparr>response_user_id = 7,
        response_recommendations = [sample_result 30 ''Movie 2'' ''Comedy'' 2005 (3 / 5)],
        response_method = ''vectorial'', response_count = 1,
        response_user_history_size = 1\<rparr>" sample_db_cached "[10]"
      fast_gen sample_forward flat_faiss built_index "points_scroll sample_points" Map.empty
      sample_api_request
      "\<lparr>fast_user_id = 7,
        fast_recommendations =
          [\<lparr>fast_movie_id = 20, fast_title = Some ''Movie 1'', fast_genres = [''Drama''],
            fast_year = Some 2005, fast_score = 1\<rparr>],
        fast_method = ''faiss_fast''\<rparr>" "[7 \<mapsto> [0, 1]]"]
  from t [THEN conjunct1, rule_format, OF sample_recommend, THEN conjunct1]
  have "\<forall>m. result_movie_id (sample_result 30 ''Movie 2'' ''Comedy'' 2005 (3 / 5)) = Some m \<longrightarrow>
          m \<notin> set (fst (get_user_sequence sample_mongo_ops sample_db 7))"
    by (simp add: sample_services_def sample_request_def)
  then have "(30 :: int) \<notin> set (fst (get_user_sequence sample_mongo_ops sample_db 7))"
    by (simp add: sample_result_def)
  then show ?thesis
    using sample_recommend sample_recommend_fast stale_sequence built_search_second
    by (simp add: sample_sequence sample_result_def stale_db_def)
qed

lemma recommend_404_iff_empty:
  "(fst (get_user_sequence (movie_db svc) db (request_user_id request)) = [] \<longrightarrow>
      recommend svc db request =
        (Inl (HTTPException 404 (NoHistoryDetail (request_user_id request))),
         snd (get_user_sequence (movie_db svc) db (request_user_id request))) \<and>
      (\<forall>svc'. movie_db svc' = movie_db svc \<longrightarrow>
         recommend svc' db request = recommend svc db request)) \<and>
   (fst (get_user_sequence (movie_db svc) db (request_user_id request)) \<noteq> [] \<longrightarrow>
      (\<forall>d. fst (recommend svc db request) \<noteq> Inl (HTTPException 404 d)))"
proof -
  obtain user_sequence db1 where
    g: "get_user_sequence (movie_db svc) db (request_user_id request) = (user_sequence, db1)"
    by (cases "get_user_sequence (movie_db svc) db (request_user_id request)")
  show ?thesis
  proof (cases "user_sequence = []")
    case True
    with g show ?thesis by (simp add: recommend_def)
  next
    case False
    with g have "\<forall>d. fst (recommend svc db request) \<noteq> Inl (HTTPException 404 d)"
      by (simp add: recommend_def split: option.splits sum.splits prod.splits)
    with g False show ?thesis by simp
  qed
qed

lemma ratings_sequence_empty:
  "fst (ratings_sequence ops db user_id) = [] \<longleftrightarrow>
     (\<exists>e. find_one_rating ops (mongo db) user_id = Inl e) \<or>
     find_one_rating ops (mongo db) user_id = Inr False \<or>
     (\<exists>e. find_ratings ops (mongo db) user_id = Inl e) \<or>
     find_ratings ops (mongo db) user_id = Inr [] \<or>
     call_raises ops (RedisSetex user_id) \<noteq> None"
  by (auto simp: ratings_sequence_def split: sum.splits bool.splits option.splits)

lemma get_user_sequence_empty:
  "fst (get_user_sequence ops db user_id) = [] \<longleftrightarrow>
     call_raises ops (RedisGet user_id) \<noteq> None \<or>
     (user_sequence_cache db user_id \<noteq> None \<and> call_raises ops (JsonLoads user_id) \<noteq> None) \<or>
     user_sequence_cache db user_id = Some [] \<or>
     (user_sequence_cache db user_id = None \<and>
      ((\<exists>e. find_one_rating ops (mongo db) user_id = Inl e) \<or>
       find_one_rating ops (mongo db) user_id = Inr False \<or>
       (\<exists>e. find_ratings ops (mongo db) user_id = Inl e) \<or>
       find_ratings ops (mongo db) user_id = Inr [] \<or>
       call_raises ops (RedisSetex user_id) \<noteq> None))"
proof (cases "call_raises ops (RedisGet user_id)")
  case (Some e)
  then show ?thesis by (simp add: get_user_sequence_def)
next
  case None
  show ?thesis
  proof (cases "user_sequence_cache db user_id")
    case no_cache: None
    with None show ?thesis
      by (simp add: get_user_sequence_def ratings_sequence_empty)
  next
    case (Some cached)
    with None show ?thesis
      by (cases "call_raises ops (JsonLoads user_id)") (auto simp: get_user_sequence_def)
  qed
qed

lemma get_user_sequence_quiet:
  assumes "\<forall>c. call_raises ops c = None"
    and "user_sequence_cache db user_id = None"
    and "find_one_rating ops (mongo db) user_id = Inr True"
    and "find_ratings ops (mongo db) user_id = Inr sequence"
  shows "fst (get_user_sequence ops db user_id) = sequence"
  using assms by (simp add: get_user_sequence_def ratings_sequence_def)

lemma sample_no_sequence: "get_user_sequence sample_mongo_ops sample_db 8 = ([], sample_db)"
  by (simp add: get_user_sequence_def ratings_sequence_def sample_mongo_ops_def sample_db_def)

lemma unreachable_sequence:
  "get_user_sequence (movie_db unreachable_services) sample_db 7 = ([], sample_db)"
  by (simp add: get_user_sequence_def ratings_sequence_def unreachable_services_def
      sample_services_def sample_mongo_ops_def sample_db_def)

lemma read_only_sequence:
  "get_user_sequence (movie_db read_only_services) sample_db 7 = ([], sample_db)"
  by (simp add: get_user_sequence_def ratings_sequence_def read_only_services_def
      sample_services_def sample_mongo_ops_def sample_db_def)

lemma unreachable_recommend:
  "recommend unreachable_services sample_db (sample_request 7) =
     (Inl (HTTPException 404 (NoHistoryDetail 7)), sample_db)"
  by (simp add: recommend_def unreachable_sequence sample_request_def)

lemma read_only_recommend:
  "recommend read_only_services sample_db (sample_request 7) =
     (Inl (HTTPException 404 (NoHistoryDetail 7)), sample_db)"
  by (simp add: recommend_def read_only_sequence sample_request_def)

text \<open>
  C6, as stated, fails. User 7 has a rating of movie 10 in MongoDB. When the first
  query to MongoDB raises, and also when MongoDB answers and Redis then refuses to
  store the sequence, \<open>get_user_sequence\<close> returns the empty list and \<open>recommend\<close>
  raises the 404 exception for a user whose history is not empty.
\<close>

theorem store_failure_counterexample:
  "find_ratings sample_mongo_ops (mongo sample_db) 7 = Inr [10] \<and>
   recommend unreachable_services sample_db (sample_request 7) =
     (Inl (HTTPException 404 (NoHistoryDetail 7)), sample_db) \<and>
   find_ratings (movie_db read_only_services) (mongo sample_db) 7 = Inr [10] \<and>
   recommend read_only_services sample_db (sample_request 7) =
     (Inl (HTTPException 404 (NoHistoryDetail 7)), sample_db)"
  by (simp add: unreachable_recommend read_only_recommend)
    (simp add: read_only_services_def sample_services_def sample_mongo_ops_def sample_db_def)

text \<open>
  C6, amended. \<open>recommend\<close> raises the 404 exception exactly when the sequence that
  \<open>get_user_sequence\<close> returns is empty, leaves the databases as \<open>get_user_sequence\<close>
  left them, and does so whatever the model, the search client and the metadata lookup
  are; when that sequence is not empty it raises no 404 exception. The sequence is
  empty when the Redis read or \<open>json.loads\<close> raises, when the cached sequence is empty,
  and, with nothing cached, when MongoDB has no rating of the user, when one of the two
  queries raises, or when the Redis write raises. When no call raises and nothing is
  cached, it is the sequence of the user's ratings.
\<close>

theorem recommend_no_history:
  "(fst (get_user_sequence (movie_db svc) db (request_user_id request)) = [] \<longrightarrow>
      recommend svc db request =
        (Inl (HTTPException 404 (NoHistoryDetail (request_user_id request))),
         snd (get_user_sequence (movie_db svc) db (request_user_id request))) \<and>
      (\<forall>svc'. movie_db svc' = movie_db svc \<longrightarrow>
         recommend svc' db request = recommend svc db request)) \<and>
   (fst (get_user_sequence (movie_db svc) db (request_user_id request)) \<noteq> [] \<longrightarrow>
      (\<forall>d. fst (recommend svc db request) \<noteq> Inl (HTTPException 404 d))) \<and>
   (fst (get_user_sequence ops db user_id) = [] \<longleftrightarrow>
      call_raises ops (RedisGet user_id) \<noteq> None \<or>
      (user_sequence_cache db user_id \<noteq> None \<and> call_raises ops (JsonLoads user_id) \<noteq> None) \<or>
      user_sequence_cache db user_id = Some [] \<or>
      (user_sequence_cache db user_id = None \<and>
       ((\<exists>e. find_one_rating ops (mongo db) user_id = Inl e) \<or>
        find_one_rating ops (mongo db) user_id = Inr False \<or>
        (\<exists>e. find_ratings ops (mongo db) user_id = Inl e) \<or>
        find_ratings ops (mongo db) user_id = Inr [] \<or>
        call_raises ops (RedisSetex user_id) \<noteq> None))) \<and>
   ((\<forall>c. call_raises ops c = None) \<and> user_sequence_cache db user_id = None \<and>
    find_one_rating ops (mongo db) user_id = Inr True \<and>
    find_ratings ops (mongo db) user_id = Inr sequence \<longrightarrow>
      fst (get_user_sequence ops db user_id) = sequence)"
  using recommend_404_iff_empty [of svc db request]
    get_user_sequence_empty [of ops db user_id]
    get_user_sequence_quiet [of ops db user_id sequence]
  by (intro conjI) blast+

theorem recommend_no_history_witness:
  "fst (get_user_sequence sample_mongo_ops sample_db 8) = [] \<and>
   recommend sample_services sample_db (sample_request 8) =
     (Inl (HTTPException 404 (NoHistoryDetail 8)), sample_db) \<and>
   fst (get_user_sequence sample_mongo_ops sample_db 7) \<noteq> [] \<and>
   fst (recommend sample_services sample_db (sample_request 7)) \<noteq>
     Inl (HTTPException 404 (NoHistoryDetail 7)) \<and>
   find_one_rating (movie_db unreachable_services) (mongo sample_db) 7 =
     Inl (LibraryError ''connection lost'') \<and>
   fst (get_user_sequence (movie_db unreachable_services) sample_db 7) = [] \<and>
   find_ratings sample_mongo_ops (mongo sample_db) 7 = Inr [10] \<and>
   fst (get_user_sequence sample_mongo_ops sample_db 7) = [10]"
proof -
  have e: "fst (get_user_sequence (movie_db sample_services) sample_db
                 (request_user_id (sample_request 8))) = []"
    by (simp add: sample_services_def sample_request_def sample_no_sequence)
  have n: "fst (get_user_sequence (movie_db sample_services) sample_db
                 (request_user_id (sample_request 7))) \<noteq> []"
    by (simp add: sample_services_def sample_request_def sample_sequence)
  note t8 = recommend_no_history [of sample_services sample_db "sample_request 8"
      "movie_db unreachable_services" 7 "[10]"]
  from t8 [THEN conjunct1] e
  have a: "recommend sample_services sample_db (sample_request 8) =
     (Inl (HTTPException 404 (NoHistoryDetail 8)), sample_db)"
    by (simp add: sample_services_def sample_request_def sample_no_sequence)
  have f: "find_one_rating (movie_db unreachable_services) (mongo sample_db) 7 =
     Inl (LibraryError ''connection lost'')"
    by (simp add: unreachable_services_def)
  have nc: "user_sequence_cache sample_db 7 = None"
    by (simp add: sample_db_def)
  from t8 [THEN conjunct2, THEN conjunct2, THEN conjunct1] f nc
  have c: "fst (get_user_sequence (movie_db unreachable_services) sample_db 7) = []"
    by blast
  note t7 = recommend_no_history [of sample_services sample_db "sample_request 7"
      sample_mongo_ops 7 "[10]"]
  from t7 [THEN conjunct2, THEN conjunct1] n
  have b: "fst (recommend sample_services sample_db (sample_request 7)) \<noteq>
     Inl (HTTPException 404 (NoHistoryDetail 7))"
    by simp
  have q: "find_ratings sample_mongo_ops (mongo sample_db) 7 = Inr [10]"
    by (simp add: sample_mongo_ops_def sample_db_def)
  from a b c f q show ?thesis
    by (simp add: sample_no_sequence sample_sequence)
qed

section \<open>Rating updates\<close>

lemma update_user_rating_written:
  assumes "update_one_rating ops (mongo db) user_id movie_id rating
             (case timestamp of None \<Rightarrow> now | Some t \<Rightarrow> t) = Inr mongo'"
    and "call_raises ops (RedisDelete user_id) = None"
  shows "update_user_rating ops now db user_id movie_id rating timestamp =
           (Inr (), db\<lparr>mongo := mongo',
                       user_sequence_cache := (user_sequence_cache db)(user_id := None)\<rparr>)"
  using assms by (simp add: update_user_rating_def)

text \<open>
  C9. When the write to the rating store raises, \<open>update_user_rating\<close> raises the same
  exception and \<open>update_user\<close> turns it into the 500 exception, and both leave the
  databases, the cached sequence of the user included, exactly as they were.
\<close>

theorem failed_write_keeps_cache:
  assumes "update_one_rating (movie_db svc) (mongo db) (update_user_id request)
             (update_movie_id request) (update_rating request) now = Inl e"
  shows "update_user_rating (movie_db svc) now db (update_user_id request)
           (update_movie_id request) (update_rating request) None = (Inl e, db) \<and>
         update_user svc now db request = (Inl (HTTPException 500 (InternalErrorDetail e)), db) \<and>
         user_sequence_cache (snd (update_user svc now db request)) = user_sequence_cache db"
  using assms by (simp add: update_user_def update_user_rating_def)

theorem failed_write_keeps_cache_witness:
  "update_one_rating (movie_db failing_services) (mongo sample_db_cached) 7 20 (9 / 2) 1000 =
     Inl (LibraryError ''connection lost'') \<and>
   update_user failing_services 1000 sample_db_cached sample_update =
     (Inl (HTTPException 500 (InternalErrorDetail (LibraryError ''connection lost''))),
      sample_db_cached) \<and>
   user_sequence_cache sample_db_cached 7 = Some [10]"
proof -
  have w: "update_one_rating (movie_db failing_services) (mongo sample_db_cached)
             (update_user_id sample_update) (update_movie_id sample_update)
             (update_rating sample_update) 1000 = Inl (LibraryError ''connection lost'')"
    by (simp add: failing_services_def failing_mongo_ops_def)
  from failed_write_keeps_cache [OF w]
  have "update_user failing_services 1000 sample_db_cached sample_update =
     (Inl (HTTPException 500 (InternalErrorDetail (LibraryError ''connection lost''))),
      sample_db_cached)"
    by simp
  then show ?thesis
    by (simp add: failing_services_def failing_mongo_ops_def sample_db_cached_def)
qed

section \<open>The embedding cache of api.py\<close>

lemma l2norm_unit: "l2norm [0, 1] = 1"
  by (simp add: l2norm_def)

lemma api_get_cached:
  "cache user_id = Some e \<Longrightarrow> api_get_user_embedding gen forward cache user_id = (Inr e, cache)"
  by (simp add: api_get_user_embedding_def)

lemma api_get_missing:
  "cache user_id = None \<Longrightarrow> forward (gen user_id) = Inr v \<Longrightarrow>
   api_get_user_embedding gen forward cache user_id =
     (Inr (normalize v), cache(user_id \<mapsto> normalize v))"
  by (simp add: api_get_user_embedding_def)

lemma api_update_user_cache:
  "snd (api_update_user cache request) = cache(update_user_id request := None)"
  by (simp add: api_update_user_def recalculate_user_embedding_def)

text \<open>
  C3, as stated, fails. The cache holds no generation and a read takes none. After
  \<open>update_user\<close> for user 7 the stored entry is gone, not left unmodified, and the next
  read for user 7 does not return \<open>None\<close>: it returns the embedding computed anew.
\<close>

theorem update_user_cache_counterexample:
  "sample_cache 7 = Some [1, 0] \<and>
   snd (api_update_user sample_cache sample_update) 7 = None \<and>
   fst (api_get_user_embedding sample_gen sample_forward
          (snd (api_update_user sample_cache sample_update)) 7) = Inr [0, 1]"
  by (simp add: api_update_user_cache sample_update_def sample_cache_def
      api_get_user_embedding_def sample_gen_def sample_forward_def normalize_def l2norm_unit)

text \<open>
  C3, amended. \<open>update_user\<close> deletes the cache entry of its user and no other. A read
  for a user whose entry is present returns the stored embedding; the read that follows
  an update of the user finds no entry, computes the embedding from the user's
  sequence, returns it and stores it.
\<close>

theorem update_user_invalidates:
  "snd (api_update_user cache request) (update_user_id request) = None \<and>
   (\<forall>u. u \<noteq> update_user_id request \<longrightarrow> snd (api_update_user cache request) u = cache u) \<and>
   (cache u = Some e \<longrightarrow> api_get_user_embedding gen forward cache u = (Inr e, cache)) \<and>
   (forward (gen (update_user_id request)) = Inr v \<longrightarrow>
      api_get_user_embedding gen forward (snd (api_update_user cache request))
         (update_user_id request) =
        (Inr (normalize v),
         (snd (api_update_user cache request))(update_user_id request \<mapsto> normalize v)))"
  by (simp add: api_update_user_cache api_get_cached api_get_missing)

theorem update_user_invalidates_witness:
  "sample_cache 7 = Some [1, 0] \<and>
   api_get_user_embedding sample_gen sample_forward sample_cache 7 = (Inr [1, 0], sample_cache) \<and>
   sample_forward (sample_gen 7) = Inr [0, 1] \<and>
   snd (api_update_user sample_cache sample_update) 7 = None \<and>
   api_get_user_embedding sample_gen sample_forward
       (snd (api_update_user sample_cache sample_update)) 7 =
     (Inr [0, 1], [7 \<mapsto> [0, 1]])"
proof -
  have c: "sample_cache 7 = Some [1, 0]" by (simp add: sample_cache_def)
  have f: "sample_forward (sample_gen (update_user_id sample_update)) = Inr [0, 1]"
    by (simp add: sample_forward_def)
  have n: "normalize [0, 1] = [0, 1]" by (simp add: normalize_def l2norm_unit)
  have u: "(snd (api_update_user sample_cache sample_update))(7 \<mapsto> [0, 1]) = [7 \<mapsto> [0, 1]]"
    by (simp add: api_update_user_cache sample_update_def sample_cache_def)
  from update_user_invalidates [of sample_cache sample_update 7 "[1, 0]" sample_gen
      sample_forward "[0, 1]"] c f n u
  show ?thesis by (simp add: sample_update_def sample_forward_def)
qed

section \<open>Where vectors are normalized\<close>

lemma sum_squares_divide:
  fixes c :: real
  shows "sum_list (map (\<lambda>x. x * x) (map (\<lambda>x. x / c) v)) =
         sum_list (map (\<lambda>x. x * x) v) / (c * c)"
  by (induction v) (simp_all add: add_divide_distrib)

lemma sum_squares_nonneg: "0 \<le> sum_list (map (\<lambda>x. x * x) (v :: real list))"
  by (induction v) simp_all

lemma l2norm_normalize:
  assumes "l2norm v \<noteq> 0"
  shows "l2norm (normalize v) = 1"
proof -
  let ?s = "sum_list (map (\<lambda>x. x * x) v)"
  have s0: "0 \<le> ?s" by (rule sum_squares_nonneg)
  from assms have s: "?s \<noteq> 0" by (simp add: l2norm_def)
  have sq: "l2norm v * l2norm v = ?s"
    using s0 by (simp add: l2norm_def)
  have "l2norm (normalize v) =
        sqrt (sum_list (map (\<lambda>x. x * x) (map (\<lambda>x. x / l2norm v) v)))"
    unfolding normalize_def by (rule l2norm_def)
  also have "\<dots> = sqrt (?s / (l2norm v * l2norm v))"
    by (simp only: sum_squares_divide)
  also have "\<dots> = sqrt (?s / ?s)"
    by (simp only: sq)
  also have "\<dots> = 1"
    using s by simp
  finally show ?thesis .
qed

lemma extract_user_embeddings_Inr:
  "extract_user_embeddings forward seqs = Inr embs \<Longrightarrow>
   length embs = length seqs \<and>
   (\<forall>i < length seqs. \<exists>v. forward (seqs ! i) = Inr v \<and> embs ! i = normalize v)"
proof (induction seqs arbitrary: embs)
  case Nil
  then show ?case by simp
next
  case (Cons s seqs)
  from Cons.prems obtain v rest where
    v: "forward s = Inr v" and r: "extract_user_embeddings forward seqs = Inr rest"
    and e: "embs = normalize v # rest"
    by (auto split: sum.splits)
  from Cons.IH [OF r] have ih: "length rest = length seqs"
    "\<forall>i < length seqs. \<exists>v. forward (seqs ! i) = Inr v \<and> rest ! i = normalize v"
    by simp_all
  show ?case
  proof (intro conjI allI impI)
    show "length embs = length (s # seqs)" using e ih by simp
  next
    fix i assume "i < length (s # seqs)"
    then show "\<exists>w. forward ((s # seqs) ! i) = Inr w \<and> embs ! i = normalize w"
      using v e ih by (cases i) auto
  qed
qed

lemma enumerate_from_values: "map snd (enumerate_from i xs) = xs"
  by (induction xs arbitrary: i) simp_all

lemma movie_points_vectors:
  "map point_vector (movie_points embeddings metadata) = map fst (zip embeddings metadata)"
proof -
  have "map point_vector (movie_points embeddings metadata) =
        map (\<lambda>p. fst (snd p)) (enumerate_from 0 (zip embeddings metadata))"
    by (simp add: movie_points_def split_def)
  also have "\<dots> = map fst (map snd (enumerate_from 0 (zip embeddings metadata)))"
    by simp
  finally show ?thesis by (simp only: enumerate_from_values)
qed

lemma concat_batches: "0 < n \<Longrightarrow> concat (batches n xs) = xs"
proof (induction n xs rule: batches.induct)
  case (1 n xs)
  show ?case
  proof (cases "xs = []")
    case True
    then show ?thesis by simp
  next
    case False
    with 1 show ?thesis by simp
  qed
qed

lemma create_index_flat_rows:
  "index_type self = ''flat'' \<Longrightarrow>
   create_index flat_faiss embeddings mapping self =
     (Inr (), self\<lparr>item_mapping := mapping, reverse_item_mapping := invert_dict mapping,
                  index := Some embeddings\<rparr>)"
  by (simp add: create_index_def construct_index_def flat_faiss_def)

lemma l2norm_three_four: "l2norm [3, 4] = 5"
proof -
  have "sqrt 25 = (5 :: real)"
    by (rule real_sqrt_unique) simp_all
  then show ?thesis by (simp add: l2norm_def)
qed

lemma normalize_three_four: "normalize [3, 4] = [3 / 5, 4 / 5]"
  by (simp add: normalize_def l2norm_three_four)

lemma l2norm_fifths: "l2norm [3 / 5, 4 / 5] = 1"
proof -
  have "l2norm [3, 4] \<noteq> 0" by (simp add: l2norm_three_four)
  from l2norm_normalize [OF this] show ?thesis by (simp add: normalize_three_four)
qed

lemma store_put_unit:
  assumes "unit_vectors (store_points s)" and "l2norm (point_vector p) \<noteq> 0"
    and "store_put p s = Inr s'"
  shows "unit_vectors (store_points s')"
proof -
  let ?q = "p\<lparr>point_vector := normalize (point_vector p)\<rparr>"
  have q: "l2norm (point_vector ?q) = 1"
    using assms(2) by (simp add: l2norm_normalize)
  from assms(3) have "set (store_points s') \<subseteq> insert ?q (set (store_points s))"
    by (auto simp: store_put_def Let_def split: if_splits)
  with assms(1) q show ?thesis
    unfolding unit_vectors_def by blast
qed

lemma store_upsert_unit:
  assumes "unit_vectors (store_points s)" and "\<forall>p \<in> set batch. l2norm (point_vector p) \<noteq> 0"
    and "store_upsert s batch = Inr s'"
  shows "unit_vectors (store_points s')"
  using assms
proof (induction batch arbitrary: s)
  case Nil
  then show ?case by simp
next
  case (Cons p batch)
  from Cons.prems(3) obtain s1 where p: "store_put p s = Inr s1"
    and r: "store_upsert s1 batch = Inr s'"
    by (auto split: sum.splits)
  from Cons.prems(1,2) p have "unit_vectors (store_points s1)"
    by (auto intro: store_put_unit)
  with Cons.IH [of s1] Cons.prems(2) r show ?case by simp
qed

lemma upsert_batches_unit:
  assumes "unit_vectors (store_points s)"
    and "\<forall>batch \<in> set bs. \<forall>p \<in> set batch. l2norm (point_vector p) \<noteq> 0"
    and "upsert_batches store_upsert s bs = Inr s'"
  shows "unit_vectors (store_points s')"
  using assms
proof (induction bs arbitrary: s)
  case Nil
  then show ?case by simp
next
  case (Cons batch bs)
  from Cons.prems(3) obtain s1 where b: "store_upsert s batch = Inr s1"
    and r: "upsert_batches store_upsert s1 bs = Inr s'"
    by (auto split: sum.splits)
  from Cons.prems(1,2) b have "unit_vectors (store_points s1)"
    by (auto intro: store_upsert_unit)
  with Cons.IH [of s1] Cons.prems(2) r show ?case by simp
qed

lemma batches_subset:
  assumes "batch \<in> set (batches 100 xs)"
  shows "set batch \<subseteq> set xs"
proof -
  have "concat (batches 100 xs) = xs"
    by (rule concat_batches) simp
  then have "set xs = (\<Union>b \<in> set (batches 100 xs). set b)"
    by (metis set_concat)
  with assms show ?thesis by blast
qed

lemma movie_points_vector_in:
  assumes "p \<in> set (movie_points embeddings metadata)"
  shows "point_vector p \<in> set embeddings"
proof -
  from assms have "point_vector p \<in> set (map point_vector (movie_points embeddings metadata))"
    by simp
  then have "point_vector p \<in> set (map fst (zip embeddings metadata))"
    by (simp only: movie_points_vectors)
  then show ?thesis by (auto dest: set_zip_leftD)
qed

lemma insert_movies_unit:
  assumes "unit_vectors (store_points s)" and "\<forall>v \<in> set embeddings. l2norm v \<noteq> 0"
    and "insert_movies store_upsert s embeddings metadata = Inr s'"
  shows "unit_vectors (store_points s')"
proof -
  have nz: "\<forall>batch \<in> set (batches 100 (movie_points embeddings metadata)).
          \<forall>p \<in> set batch. l2norm (point_vector p) \<noteq> 0"
    using assms(2) batches_subset movie_points_vector_in by blast
  from assms(3) have "upsert_batches store_upsert s
      (batches 100 (movie_points embeddings metadata)) = Inr s'"
    by (simp only: insert_movies_def)
  with assms(1) nz show ?thesis
    by (rule upsert_batches_unit)
qed

lemma save_user_embedding_unit:
  assumes "case client of None \<Rightarrow> True | Some s \<Rightarrow> unit_vectors (store_points s)"
    and "l2norm embedding \<noteq> 0"
    and "save_user_embedding user_has_collection user_create_collection user_upsert now
           client user_id embedding = Inr client'"
  shows "\<exists>s'. client' = Some s' \<and> unit_vectors (store_points s')"
proof -
  let ?p = "user_point user_id embedding now"
  have v: "\<forall>p \<in> set [?p]. l2norm (point_vector p) \<noteq> 0"
    using assms(2) by (simp add: user_point_def)
  show ?thesis
  proof (cases client)
    case None
    let ?s = "\<lparr>store_dimension = length embedding, store_points = []\<rparr> :: user_payload vector_store"
    have "user_upsert (Some ?s) [?p] = Inr client'"
      using None assms(3)
      by (simp add: save_user_embedding_def user_has_collection_def user_create_collection_def)
    then obtain s' where u: "store_upsert ?s [?p] = Inr s'" and c: "client' = Some s'"
      unfolding user_upsert_def by (cases "store_upsert ?s [?p]") auto
    have e: "unit_vectors (store_points ?s)" by (simp add: unit_vectors_def)
    from e v u have "unit_vectors (store_points s')"
      by (rule store_upsert_unit)
    with c show ?thesis by simp
  next
    case (Some s)
    have "user_upsert (Some s) [?p] = Inr client'"
      using Some assms(3)
      by (simp add: save_user_embedding_def user_has_collection_def)
    then obtain s' where u: "store_upsert s [?p] = Inr s'" and c: "client' = Some s'"
      unfolding user_upsert_def by (cases "store_upsert s [?p]") auto
    from Some assms(1) have e: "unit_vectors (store_points s)" by simp
    from e v u have "unit_vectors (store_points s')"
      by (rule store_upsert_unit)
    with c show ?thesis by simp
  qed
qed

lemma exported_rows_unit:
  assumes "\<forall>row \<in> set (take num_items (drop 1 weights)). l2norm row \<noteq> 0"
  shows "\<forall>v \<in> set (extract_item_embeddings weights num_items). l2norm v = 1"
  using assms by (auto simp: extract_item_embeddings_def l2norm_normalize)

text \<open>
  C4. Over the reals and for vectors of non-zero norm, every vector that enters a store
  has unit length when it is held. The item vectors that \<open>extract_item_embeddings\<close>
  exports, and the user vectors of \<open>extract_user_embeddings\<close>, are divided by their norm
  before they are handed on, so the flat index that \<open>create_index\<close> builds from the
  exported rows holds unit rows. A collection that brings a vector to unit length when
  the point is put, as the specification has it, holds unit vectors after
  \<open>insert_movies\<close> and after \<open>save_user_embedding\<close> whenever it held unit vectors
  before, whatever non-zero vectors they are given.
\<close>

theorem stored_vectors_unit:
  "(\<forall>i < length (extract_item_embeddings weights num_items).
      l2norm (take num_items (drop 1 weights) ! i) \<noteq> 0 \<longrightarrow>
      l2norm (extract_item_embeddings weights num_items ! i) = 1) \<and>
   (extract_user_embeddings forward seqs = Inr embs \<longrightarrow>
      length embs = length seqs \<and>
      (\<forall>i < length seqs.
         \<exists>v. forward (seqs ! i) = Inr v \<and> embs ! i = normalize v \<and>
             (l2norm v \<noteq> 0 \<longrightarrow> l2norm (embs ! i) = 1))) \<and>
   (index_type self = ''flat'' \<and>
    (\<forall>row \<in> set (take num_items (drop 1 weights)). l2norm row \<noteq> 0) \<longrightarrow>
      fst (create_index flat_faiss (extract_item_embeddings weights num_items) mapping self) =
        Inr () \<and>
      (\<exists>rows. index (snd (create_index flat_faiss
                             (extract_item_embeddings weights num_items) mapping self)) =
                Some rows \<and>
              length rows = length (extract_item_embeddings weights num_items) \<and>
              (\<forall>v \<in> set rows. l2norm v = 1))) \<and>
   (unit_vectors (store_points s) \<and> (\<forall>v \<in> set embeddings. l2norm v \<noteq> 0) \<and>
    insert_movies store_upsert s embeddings metadata = Inr s' \<longrightarrow>
      unit_vectors (store_points s')) \<and>
   ((case client of None \<Rightarrow> True | Some c \<Rightarrow> unit_vectors (store_points c)) \<and>
    l2norm embedding \<noteq> 0 \<and>
    save_user_embedding user_has_collection user_create_collection user_upsert now
      client user_id embedding = Inr client' \<longrightarrow>
      (\<exists>c'. client' = Some c' \<and> unit_vectors (store_points c')))"
proof -
  have items: "\<forall>i < length (extract_item_embeddings weights num_items).
      l2norm (take num_items (drop 1 weights) ! i) \<noteq> 0 \<longrightarrow>
      l2norm (extract_item_embeddings weights num_items ! i) = 1"
    by (simp add: extract_item_embeddings_def l2norm_normalize)
  have users: "extract_user_embeddings forward seqs = Inr embs \<longrightarrow>
      length embs = length seqs \<and>
      (\<forall>i < length seqs.
         \<exists>v. forward (seqs ! i) = Inr v \<and> embs ! i = normalize v \<and>
             (l2norm v \<noteq> 0 \<longrightarrow> l2norm (embs ! i) = 1))"
  proof
    assume "extract_user_embeddings forward seqs = Inr embs"
    from extract_user_embeddings_Inr [OF this]
    have len: "length embs = length seqs"
      and each: "\<forall>i < length seqs. \<exists>v. forward (seqs ! i) = Inr v \<and> embs ! i = normalize v"
      by simp_all
    have "\<forall>i < length seqs.
         \<exists>v. forward (seqs ! i) = Inr v \<and> embs ! i = normalize v \<and>
             (l2norm v \<noteq> 0 \<longrightarrow> l2norm (embs ! i) = 1)"
    proof (intro allI impI)
      fix i assume "i < length seqs"
      with each obtain v where "forward (seqs ! i) = Inr v" "embs ! i = normalize v"
        by blast
      then show "\<exists>v. forward (seqs ! i) = Inr v \<and> embs ! i = normalize v \<and>
             (l2norm v \<noteq> 0 \<longrightarrow> l2norm (embs ! i) = 1)"
        by (simp add: l2norm_normalize)
    qed
    with len show "length embs = length seqs \<and>
      (\<forall>i < length seqs.
         \<exists>v. forward (seqs ! i) = Inr v \<and> embs ! i = normalize v \<and>
             (l2norm v \<noteq> 0 \<longrightarrow> l2norm (embs ! i) = 1))"
      by simp
  qed
  have faiss: "index_type self = ''flat'' \<and>
    (\<forall>row \<in> set (take num_items (drop 1 weights)). l2norm row \<noteq> 0) \<longrightarrow>
      fst (create_index flat_faiss (extract_item_embeddings weights num_items) mapping self) =
        Inr () \<and>
      (\<exists>rows. index (snd (create_index flat_faiss
                             (extract_item_embeddings weights num_items) mapping self)) =
                Some rows \<and>
              length rows = length (extract_item_embeddings weights num_items) \<and>
              (\<forall>v \<in> set rows. l2norm v = 1))"
  proof
    assume a: "index_type self = ''flat'' \<and>
      (\<forall>row \<in> set (take num_items (drop 1 weights)). l2norm row \<noteq> 0)"
    then have "\<forall>v \<in> set (extract_item_embeddings weights num_items). l2norm v = 1"
      by (intro exported_rows_unit) simp
    with a show "fst (create_index flat_faiss (extract_item_embeddings weights num_items)
                       mapping self) = Inr () \<and>
      (\<exists>rows. index (snd (create_index flat_faiss
                             (extract_item_embeddings weights num_items) mapping self)) =
                Some rows \<and>
              length rows = length (extract_item_embeddings weights num_items) \<and>
              (\<forall>v \<in> set rows. l2norm v = 1))"
      by (simp add: create_index_flat_rows)
  qed
  have movies: "unit_vectors (store_points s) \<and> (\<forall>v \<in> set embeddings. l2norm v \<noteq> 0) \<and>
    insert_movies store_upsert s embeddings metadata = Inr s' \<longrightarrow>
      unit_vectors (store_points s')"
    using insert_movies_unit [of s embeddings metadata s'] by blast
  have user: "(case client of None \<Rightarrow> True | Some c \<Rightarrow> unit_vectors (store_points c)) \<and>
    l2norm embedding \<noteq> 0 \<and>
    save_user_embedding user_has_collection user_create_collection user_upsert now
      client user_id embedding = Inr client' \<longrightarrow>
      (\<exists>c'. client' = Some c' \<and> unit_vectors (store_points c'))"
    using save_user_embedding_unit [of client embedding now user_id client'] by blast
  from items users faiss movies user show ?thesis by (intro conjI)
qed

lemma exported_sample: "extract_item_embeddings [[0, 0], [3, 4]] 1 = [[3 / 5, 4 / 5]]"
  by (simp add: extract_item_embeddings_def normalize_three_four)

lemma sample_insert_movies:
  "insert_movies store_upsert empty_store [[3, 4]] [sample_meta 10 ''Drama'' 1995] =
     Inr \<lparr>store_dimension = 2,
          store_points =
            [\<lparr>point_id = 0, point_vector = [3 / 5, 4 / 5],
              point_payload =
                \<lparr>payload_movie_id = Some 10, payload_title = Some ''Movie 0'',
                 payload_genres = Some [''Drama''], payload_year = Some 1995,
                 payload_rating = Some 4, payload_num_ratings = Some 0\<rparr>\<rparr>]\<rparr>"
proof -
  have p: "movie_points [[3, 4]] [sample_meta 10 ''Drama'' 1995] =
            [\<lparr>point_id = 0, point_vector = [3, 4],
              point_payload =
                \<lparr>payload_movie_id = Some 10, payload_title = Some ''Movie 0'',
                 payload_genres = Some [''Drama''], payload_year = Some 1995,
                 payload_rating = Some 4, payload_num_ratings = Some 0\<rparr>\<rparr>]"
    by (simp add: movie_points_def sample_meta_def str_nat.simps)
  have b: "batches 100 [x] = [[x]]" for x :: "payload point"
    by (simp add: batches.simps)
  show ?thesis
    by (simp add: insert_movies_def p b store_put_def empty_store_def normalize_three_four)
qed

lemma sample_save_user_embedding:
  "save_user_embedding user_has_collection user_create_collection user_upsert 0 None 7 [3, 4] =
     Inr (Some \<lparr>store_dimension = 2,
                store_points =
                  [\<lparr>point_id = 7, point_vector = [3 / 5, 4 / 5],
                    point_payload =
                      \<lparr>payload_user_id = 7, payload_created_at = Some 0\<rparr>\<rparr>]\<rparr>)"
  by (simp add: save_user_embedding_def user_has_collection_def user_create_collection_def
      user_upsert_def user_point_def store_put_def normalize_three_four)

theorem stored_vectors_unit_witness:
  "l2norm [3, 4] = 5 \<and>
   extract_item_embeddings [[0, 0], [3, 4]] 1 = [[3 / 5, 4 / 5]] \<and>
   l2norm [3 / 5, 4 / 5] = 1 \<and>
   index_type new_index = ''flat'' \<and>
   index (snd (create_index flat_faiss (extract_item_embeddings [[0, 0], [3, 4]] 1) [(1, 1)]
                 new_index)) = Some [[3 / 5, 4 / 5]] \<and>
   insert_movies store_upsert empty_store [[3, 4]] [sample_meta 10 ''Drama'' 1995] =
     Inr \<lparr>store_dimension = 2,
          store_points =
            [\<lparr>point_id = 0, point_vector = [3 / 5, 4 / 5],
              point_payload =
                \<lparr>payload_movie_id = Some 10, payload_title = Some ''Movie 0'',
                 payload_genres = Some [''Drama''], payload_year = Some 1995,
                 payload_rating = Some 4, payload_num_ratings = Some 0\<rparr>\<rparr>]\<rparr> \<and>
   save_user_embedding user_has_collection user_create_collection user_upsert 0 None 7 [3, 4] =
     Inr (Some \<lparr>store_dimension = 2,
                store_points =
                  [\<lparr>point_id = 7, point_vector = [3 / 5, 4 / 5],
                    point_payload =
                      \<lparr>payload_user_id = 7, payload_created_at = Some 0\<rparr>\<rparr>]\<rparr>) \<and>
   unit_vectors
     [\<lparr>point_id = 7, point_vector = [3 / 5, 4 / 5],
       point_payload = \<lparr>payload_user_id = 7, payload_created_at = Some 0\<rparr>\<rparr>]"
proof -
  have f: "index_type new_index = ''flat''" by (simp add: new_index_def)
  have nz: "l2norm [3, 4] \<noteq> 0" by (simp add: l2norm_three_four)
  have rows: "\<forall>row \<in> set (take 1 (drop 1 [[0, 0], [3, 4 :: real]])). l2norm row \<noteq> 0"
    using nz by simp
  have e: "unit_vectors (store_points (empty_store :: payload vector_store))"
    by (simp add: unit_vectors_def empty_store_def)
  have ev: "\<forall>v \<in> set [[3, 4 :: real]]. l2norm v \<noteq> 0" using nz by simp
  note t = stored_vectors_unit [of "[[0, 0], [3, 4]]" 1 sample_forward "[[10]]" "[[0, 1]]"
      new_index "[(1, 1)]" empty_store "[[3, 4]]" "[sample_meta 10 ''Drama'' 1995]"
      "\<lparr>store_dimension = 2,
        store_points =
          [\<lparr>point_id = 0, point_vector = [3 / 5, 4 / 5],
            point_payload =
              \<lparr>payload_movie_id = Some 10, payload_title = Some ''Movie 0'',
               payload_genres = Some [''Drama''], payload_year = Some 1995,
               payload_rating = Some 4, payload_num_ratings = Some 0\<rparr>\<rparr>]\<rparr>"
      None "[3, 4]" 0 7
      "Some \<lparr>store_dimension = 2,
             store_points =
               [\<lparr>point_id = 7, point_vector = [3 / 5, 4 / 5],
                 point_payload = \<lparr>payload_user_id = 7, payload_created_at = Some 0\<rparr>\<rparr>]\<rparr>"]
  from t [THEN conjunct2, THEN conjunct2, THEN conjunct1] f rows exported_sample
  have i: "index (snd (create_index flat_faiss (extract_item_embeddings [[0, 0], [3, 4]] 1)
                 [(1, 1)] new_index)) = Some [[3 / 5, 4 / 5]]"
    by (simp add: create_index_flat_rows)
  from t [THEN conjunct2, THEN conjunct2, THEN conjunct2, THEN conjunct2] nz
    sample_save_user_embedding
  have u: "unit_vectors
     [\<lparr>point_id = 7, point_vector = [3 / 5, 4 / 5],
       point_payload = \<lparr>payload_user_id = 7, payload_created_at = Some 0\<rparr>\<rparr>]"
    by simp
  from f i u show ?thesis
    using sample_insert_movies sample_save_user_embedding exported_sample
    by (simp add: l2norm_three_four l2norm_fifths)
qed

section \<open>Search under a filter\<close>

lemma matches_build_filter: "matches p (build_filter (Some f)) = satisfies p f"
  by (cases "filters_genres f"; cases "filters_year_min f"; cases "filters_year_max f";
      cases "filters_rating_min f")
     (auto simp: matches_def build_filter_def build_conditions_def satisfies_def
        payload_field_def in_range_def split: option.splits)

lemma filter_rank_insert:
  "length (filter P (rank_insert key x ys)) = length (filter P (x # ys))"
  by (induction ys) auto

lemma filter_rank: "length (filter P (rank key xs)) = length (filter P xs)"
proof (induction xs)
  case Nil
  then show ?case by (simp add: rank_def)
next
  case (Cons x xs)
  have "rank key (x # xs) = rank_insert key x (rank key xs)"
    by (simp add: rank_def)
  with Cons show ?case
    by (simp add: filter_rank_insert)
qed

lemma filter_take_length: "length (filter P (take n xs)) \<le> length (filter P xs)"
proof -
  have "filter P xs = filter P (take n xs) @ filter P (drop n xs)"
    by (metis append_take_drop_id filter_append)
  then show ?thesis by simp
qed

lemma hit_of_payload: "hit_payload (hit_of q p) = point_payload p"
  by (simp add: hit_of_def)

lemma collection_search_Inr:
  assumes "collection_search cfg points q k qf = Inr hits"
  shows "set hits \<subseteq> hit_of q ` set points \<and>
         (\<forall>h \<in> set hits. matches (hit_payload h) qf) \<and>
         length hits \<le> nat k \<and>
         length hits \<le> length (filter (\<lambda>p. matches (point_payload p) qf) points)"
proof -
  let ?cands = "rank (\<lambda>h. (hit_id h, hit_score h)) (map (hit_of q) points)"
  let ?P = "\<lambda>h. matches (hit_payload h) qf"
  have count: "length (filter ?P ?cands) =
               length (filter (\<lambda>p. matches (point_payload p) qf) points)"
    by (simp add: filter_rank filter_map comp_def hit_of_payload)
  have cands: "set ?cands = hit_of q ` set points"
    by (simp add: set_rank)
  show ?thesis
  proof (cases qf)
    case None
    with assms have h: "hits = take (nat k) ?cands"
      by (simp add: collection_search_def split: if_splits)
    have all: "filter ?P ?cands = ?cands"
      using None by (simp add: matches_def)
    have "length hits \<le> length ?cands" using h by simp
    with all count have "length hits \<le> length (filter (\<lambda>p. matches (point_payload p) qf) points)"
      by simp
    moreover have "set hits \<subseteq> hit_of q ` set points"
      using h cands set_take_subset [of "nat k" ?cands] by simp
    moreover have "\<forall>h \<in> set hits. matches (hit_payload h) qf"
      using None by (simp add: matches_def)
    moreover have "length hits \<le> nat k" using h by simp
    ultimately show ?thesis by simp
  next
    case (Some f)
    with assms have h: "hits = take (nat k) (filter ?P (take (overfetch cfg * nat k) ?cands))"
      by (simp add: collection_search_def split: if_splits)
    have sub: "set hits \<subseteq> set (filter ?P (take (overfetch cfg * nat k) ?cands))"
      using h set_take_subset by metis
    then have m: "\<forall>h \<in> set hits. matches (hit_payload h) qf"
      by auto
    from sub have "set hits \<subseteq> set (take (overfetch cfg * nat k) ?cands)"
      by auto
    with set_take_subset [of "overfetch cfg * nat k" ?cands] cands
    have s: "set hits \<subseteq> hit_of q ` set points"
      by blast
    have "length hits \<le> length (filter ?P (take (overfetch cfg * nat k) ?cands))"
      using h by simp
    also have "\<dots> \<le> length (filter ?P ?cands)"
      by (rule filter_take_length)
    finally have "length hits \<le> length (filter (\<lambda>p. matches (point_payload p) qf) points)"
      using count by simp
    moreover have "length hits \<le> nat k" using h by simp
    ultimately show ?thesis using m s by simp
  qed
qed

text \<open>
  C5. Over a collection searched as the specification describes, every result that
  \<open>search_similar\<close> returns for a request filter comes from a stored point whose
  payload satisfies the filter; there are at most \<open>k\<close> results and no more than there
  are stored points that satisfy the filter, so nothing is padded. The qdrant filter
  that \<open>search_similar\<close> builds evaluates to false, without raising, on a payload that
  lacks a field the request filter refers to.
\<close>

theorem filtered_search_satisfies:
  "(search_similar (collection_search cfg points) query k (Some f) = Inr results \<longrightarrow>
      (\<exists>hits. results = map format_result hits \<and>
         (\<forall>h \<in> set hits. satisfies (hit_payload h) f \<and> h \<in> hit_of query ` set points) \<and>
         length results \<le> nat k \<and>
         length results \<le> length (filter (\<lambda>p. satisfies (point_payload p) f) points))) \<and>
   (filters_genres f \<noteq> None \<and> payload_genres p = None \<longrightarrow>
      \<not> matches p (build_filter (Some f))) \<and>
   ((filters_year_min f \<noteq> None \<or> filters_year_max f \<noteq> None) \<and> payload_year p = None \<longrightarrow>
      \<not> matches p (build_filter (Some f))) \<and>
   (filters_rating_min f \<noteq> None \<and> payload_rating p = None \<longrightarrow>
      \<not> matches p (build_filter (Some f)))"
proof (intro conjI impI)
  assume a: "search_similar (collection_search cfg points) query k (Some f) = Inr results"
  then obtain hits where
    c: "collection_search cfg points query k (build_filter (Some f)) = Inr hits"
    and r: "results = map format_result hits"
    by (auto simp: search_similar_def split: sum.splits)
  from collection_search_Inr [OF c]
  have "set hits \<subseteq> hit_of query ` set points"
    and "\<forall>h \<in> set hits. satisfies (hit_payload h) f"
    and "length hits \<le> nat k"
    and "length hits \<le> length (filter (\<lambda>p. satisfies (point_payload p) f) points)"
    by (simp_all add: matches_build_filter)
  with r show "\<exists>hits. results = map format_result hits \<and>
         (\<forall>h \<in> set hits. satisfies (hit_payload h) f \<and> h \<in> hit_of query ` set points) \<and>
         length results \<le> nat k \<and>
         length results \<le> length (filter (\<lambda>p. satisfies (point_payload p) f) points)"
    by auto
next
  assume "filters_genres f \<noteq> None \<and> payload_genres p = None"
  then show "\<not> matches p (build_filter (Some f))"
    by (auto simp: matches_build_filter satisfies_def)
next
  assume "(filters_year_min f \<noteq> None \<or> filters_year_max f \<noteq> None) \<and> payload_year p = None"
  then show "\<not> matches p (build_filter (Some f))"
    by (auto simp: matches_build_filter satisfies_def)
next
  assume "filters_rating_min f \<noteq> None \<and> payload_rating p = None"
  then show "\<not> matches p (build_filter (Some f))"
    by (auto simp: matches_build_filter satisfies_def)
qed

lemma drama_build_filter:
  "build_filter (Some drama_filter) =
     Some (Filter [FieldMatch ''genres'' ''Drama'', FieldRange ''year'' (Some 2000) None])"
  by (simp add: build_filter_def build_conditions_def drama_filter_def)

lemma drama_search_similar:
  "search_similar (collection_search sample_config sample_points) [1, 0] 2 (Some drama_filter) =
     Inr [sample_result 20 ''Movie 1'' ''Drama'' 2005 0]"
  by (simp add: search_similar_def collection_search_def sample_config_def drama_build_filter
      sample_candidates)
    (simp add: sample_points_eq hit_of_def dot_def format_result_def sample_result_def
      matches_def payload_field_def in_range_def)

lemma drama_matching_points:
  "filter (\<lambda>p. satisfies (point_payload p) drama_filter) sample_points = [sample_points ! 1]"
  by (simp add: sample_points_eq satisfies_def drama_filter_def)

theorem filtered_search_satisfies_witness:
  "search_similar (collection_search sample_config sample_points) [1, 0] 2 (Some drama_filter) =
     Inr [sample_result 20 ''Movie 1'' ''Drama'' 2005 0] \<and>
   length [sample_result 20 ''Movie 1'' ''Drama'' 2005 0] \<le>
     length (filter (\<lambda>p. satisfies (point_payload p) drama_filter) sample_points) \<and>
   filter (\<lambda>p. satisfies (point_payload p) drama_filter) sample_points = [sample_points ! 1] \<and>
   filters_year_min drama_filter \<noteq> None \<and>
   payload_year no_year_payload = None \<and>
   \<not> matches no_year_payload (build_filter (Some drama_filter))"
proof -
  note t = filtered_search_satisfies [of sample_config sample_points "[1, 0]" 2 drama_filter
      "[sample_result 20 ''Movie 1'' ''Drama'' 2005 0]" no_year_payload]
  from t drama_search_similar
  have len: "length [sample_result 20 ''Movie 1'' ''Drama'' 2005 0] \<le>
     length (filter (\<lambda>p. satisfies (point_payload p) drama_filter) sample_points)"
    by blast
  have y: "filters_year_min drama_filter \<noteq> None" "payload_year no_year_payload = None"
    by (simp_all add: drama_filter_def no_year_payload_def)
  with t have "\<not> matches no_year_payload (build_filter (Some drama_filter))"
    by blast
  with len y show ?thesis
    using drama_search_similar drama_matching_points by simp
qed

end
